theory Spec2Isabelle
  imports Main "HOL-Library.AList"
begin

section \<open>Kubernetes objects and watch events\<close>

text \<open>
  The fields of the API objects that \<^verbatim>\<open>downstream.go\<close> reads. Every object embeds
  \<^verbatim>\<open>metav1.ObjectMeta\<close>; the Go embedding is a record extension. Payload that the
  controller only forwards (the data of a configmap, the spec of a mission, ...) is opaque
  to it and left out. For a pod, the configmaps and secrets named by its volumes and
  envFrom sources are kept as two lists of names.
\<close>

record ObjectMeta =
  Name :: string
  Namespace :: string
  ResourceVersion :: string

record Pod = ObjectMeta +
  NodeName :: string
  ConfigMapRefs :: "string list"
  SecretRefs :: "string list"

record NodeCondition =
  cond_Type :: string
  cond_Status :: string

record Node = ObjectMeta +
  Conditions :: "NodeCondition list"

record EdgeCluster = ObjectMeta +
  ReceivedMissions :: "string list"

type_synonym ConfigMap = ObjectMeta
type_synonym Secret = ObjectMeta
type_synonym Rule = ObjectMeta
type_synonym RuleEndpoint = ObjectMeta
type_synonym Mission = ObjectMeta

text \<open>\<^verbatim>\<open>watch.EventType\<close> and the dynamically typed \<^verbatim>\<open>Object\<close> of an event.\<close>

datatype EventType = Added | Modified | Deleted | Bookmark | Error

datatype runtime_Object =
    PodObject Pod
  | ConfigMapObject ConfigMap
  | SecretObject Secret
  | NodeObject Node
  | RuleObject Rule
  | RuleEndpointObject RuleEndpoint
  | MissionObject Mission
  | EdgeClusterObject EdgeCluster

record Event =
  Type :: EventType
  Object :: runtime_Object

fun EventType_string :: "EventType \<Rightarrow> string" where
  "EventType_string Added = ''ADDED''"
| "EventType_string Modified = ''MODIFIED''"
| "EventType_string Deleted = ''DELETED''"
| "EventType_string Bookmark = ''BOOKMARK''"
| "EventType_string Error = ''ERROR''"

fun TypeName :: "runtime_Object \<Rightarrow> string" where
  "TypeName (PodObject _) = ''*v1.Pod''"
| "TypeName (ConfigMapObject _) = ''*v1.ConfigMap''"
| "TypeName (SecretObject _) = ''*v1.Secret''"
| "TypeName (NodeObject _) = ''*v1.Node''"
| "TypeName (RuleObject _) = ''*v1.Rule''"
| "TypeName (RuleEndpointObject _) = ''*v1.RuleEndpoint''"
| "TypeName (MissionObject _) = ''*v1.Mission''"
| "TypeName (EdgeClusterObject _) = ''*v1.EdgeCluster''"

section \<open>Message envelopes\<close>

text \<open>
  The envelope of the message bus, with the builder calls the controller chains:
  \<^verbatim>\<open>NewMessage\<close>, \<^verbatim>\<open>SetResourceVersion\<close>, \<^verbatim>\<open>BuildRouter\<close>, \<^verbatim>\<open>FillBody\<close>. The fresh
  identifier and the timestamp that \<^verbatim>\<open>NewMessage\<close> draws are not part of the model.
\<close>

datatype MessageContent =
    NoContent
  | PodContent Pod
  | ConfigMapContent ConfigMap
  | SecretContent Secret
  | RuleContent Rule
  | RuleEndpointContent RuleEndpoint
  | MissionContent Mission
  | MissionListContent "Mission list"

record Message =
  Header_ParentID :: string
  Header_ResourceVersion :: string
  Router_Source :: string
  Router_Group :: string
  Router_Resource :: string
  Router_Operation :: string
  Content :: MessageContent

definition NewMessage :: "string \<Rightarrow> Message" where
  "NewMessage parentID =
     \<lparr>Header_ParentID = parentID, Header_ResourceVersion = '''', Router_Source = '''',
      Router_Group = '''', Router_Resource = '''', Router_Operation = '''',
      Content = NoContent\<rparr>"

definition SetResourceVersion :: "string \<Rightarrow> Message \<Rightarrow> Message" where
  "SetResourceVersion rv msg = msg\<lparr>Header_ResourceVersion := rv\<rparr>"

definition BuildRouter :: "string \<Rightarrow> string \<Rightarrow> string \<Rightarrow> string \<Rightarrow> Message \<Rightarrow> Message" where
  "BuildRouter source grp res opr msg =
     msg\<lparr>Router_Source := source, Router_Group := grp, Router_Resource := res,
         Router_Operation := opr\<rparr>"

definition FillBody :: "MessageContent \<Rightarrow> Message \<Rightarrow> Message" where
  "FillBody content msg = msg\<lparr>Content := content\<rparr>"

text \<open>
  Modelled from the spec: the constants of \<^verbatim>\<open>model\<close>, \<^verbatim>\<open>modules\<close> and \<^verbatim>\<open>constants\<close>
  that the controller names are declared outside the sources; their values are those the
  specification gives for the wire contract (source \<open>edgecontroller\<close>, group
  \<open>resource\<close>, the three operations, the kind segment of each resource path).
\<close>

definition InsertOperation :: string where "InsertOperation = ''insert''"
definition UpdateOperation :: string where "UpdateOperation = ''update''"
definition DeleteOperation :: string where "DeleteOperation = ''delete''"

definition EdgeControllerModuleName :: string where "EdgeControllerModuleName = ''edgecontroller''"
definition GroupResource :: string where "GroupResource = ''resource''"

definition ResourceTypePod :: string where "ResourceTypePod = ''pod''"
definition ResourceTypeConfigmap :: string where "ResourceTypeConfigmap = ''configmap''"
definition ResourceTypeSecret :: string where "ResourceTypeSecret = ''secret''"
definition ResourceNode :: string where "ResourceNode = ''node''"
definition ResourceTypeRule :: string where "ResourceTypeRule = ''rule''"
definition ResourceTypeRuleEndpoint :: string where "ResourceTypeRuleEndpoint = ''ruleendpoint''"
definition ResourceTypeMission :: string where "ResourceTypeMission = ''mission''"
definition ResourceTypeMissionList :: string where "ResourceTypeMissionList = ''missionlist''"

section \<open>Resource identifiers\<close>

type_synonym error = string

text \<open>
  Modelled from the spec: \<^verbatim>\<open>messagelayer.BuildResource\<close> and
  \<^verbatim>\<open>messagelayer.BuildResourceForRouter\<close> are called by the controller but their file is
  not among the sources. The specification gives the resource path as
  \<^verbatim>\<open><nodeOrCluster>/<namespace>/<kind>/<name>\<close> (the mission-list path
  \<^verbatim>\<open><clusterName>/default/missionlist/\<close> has an empty name), as \<^verbatim>\<open><kind>/<name>\<close> for
  router objects, and names a missing field as the cause of a build failure. The Go
  functions return a pair: the resource string and an error, \<open>None\<close> standing for \<^verbatim>\<open>nil\<close>.
\<close>

definition BuildResource :: "string \<Rightarrow> string \<Rightarrow> string \<Rightarrow> string \<Rightarrow> string \<times> error option" where
  "BuildResource nodeID namespace resourceType resourceID =
     (if nodeID = '''' \<or> namespace = '''' \<or> resourceType = ''''
      then ('''', Some ''missing field'')
      else (nodeID @ ''/'' @ namespace @ ''/'' @ resourceType @ ''/'' @ resourceID, None))"

definition BuildResourceForRouter :: "string \<Rightarrow> string \<Rightarrow> string \<times> error option" where
  "BuildResourceForRouter resourceType resourceID =
     (if resourceID = '''' \<or> resourceType = ''''
      then ('''', Some ''missing field'')
      else (resourceType @ ''/'' @ resourceID, None))"

section \<open>The location cache\<close>

text \<open>
  Modelled from the spec: \<^verbatim>\<open>manager.LocationCache\<close> is used by every sync loop but its
  file is not among the sources. The indices and the contracts of the operations are
  those of the specification's sections 3 and 4.1. \<open>EdgeNodes\<close> maps a node name to its
  readiness status; the configmap and secret indices map \<open>(namespace, name)\<close> to the
  nodes referencing the object, a set kept as a duplicate-free list whose order is the
  order of the snapshot handed to the caller; \<open>PodIndex\<close> caches per pod the names it
  referenced; \<open>EdgeClusters\<close> is the concurrent map \<open>clusterName \<rightarrow> present\<close>, kept as an
  association list because the mission loop iterates over it.
\<close>

record PodRefs =
  cached_ConfigMaps :: "string list"
  cached_Secrets :: "string list"

record LocationCache =
  EdgeNodes :: "string \<rightharpoonup> string"
  ConfigMapIndex :: "(string \<times> string) \<rightharpoonup> string list"
  SecretIndex :: "(string \<times> string) \<rightharpoonup> string list"
  PodIndex :: "(string \<times> string) \<rightharpoonup> PodRefs"
  EdgeClusters :: "(string \<times> bool) list"

text \<open>Modelled from the spec: the cache is created empty.\<close>

definition empty_LocationCache :: LocationCache where
  "empty_LocationCache =
     \<lparr>EdgeNodes = Map.empty, ConfigMapIndex = Map.empty, SecretIndex = Map.empty,
      PodIndex = Map.empty, EdgeClusters = []\<rparr>"

text \<open>Modelled from the spec: \<^verbatim>\<open>IsEdgeNode(name)\<close> is true iff the name is in
  \<open>EdgeNodes\<close>; \<^verbatim>\<open>GetNodeStatus(name)\<close> returns the status and whether it was found;
  \<^verbatim>\<open>UpdateEdgeNode(name, status)\<close> is an idempotent insert-or-overwrite.\<close>

definition IsEdgeNode :: "LocationCache \<Rightarrow> string \<Rightarrow> bool" where
  "IsEdgeNode c nodeName = (EdgeNodes c nodeName \<noteq> None)"

definition GetNodeStatus :: "LocationCache \<Rightarrow> string \<Rightarrow> string \<times> bool" where
  "GetNodeStatus c nodeName =
     (case EdgeNodes c nodeName of None \<Rightarrow> ('''', False) | Some status \<Rightarrow> (status, True))"

definition UpdateEdgeNode :: "string \<Rightarrow> string \<Rightarrow> LocationCache \<Rightarrow> LocationCache" where
  "UpdateEdgeNode nodeName status c = c\<lparr>EdgeNodes := (EdgeNodes c)(nodeName \<mapsto> status)\<rparr>"

text \<open>Modelled from the spec: adding a node to, and removing it from, the value set of
  one index entry, and removing it from the value sets of all entries; an entry whose
  set becomes empty is pruned.\<close>

definition add_member ::
  "string \<Rightarrow> ('k \<rightharpoonup> string list) \<Rightarrow> 'k \<Rightarrow> ('k \<rightharpoonup> string list)" where
  "add_member n idx k =
     (case idx k of
        None \<Rightarrow> idx(k \<mapsto> [n])
      | Some ns \<Rightarrow> if n \<in> set ns then idx else idx(k \<mapsto> ns @ [n]))"

definition remove_member ::
  "string \<Rightarrow> ('k \<rightharpoonup> string list) \<Rightarrow> 'k \<Rightarrow> ('k \<rightharpoonup> string list)" where
  "remove_member n idx k =
     (case idx k of
        None \<Rightarrow> idx
      | Some ns \<Rightarrow> if removeAll n ns = [] then idx(k := None) else idx(k \<mapsto> removeAll n ns))"

definition remove_everywhere :: "string \<Rightarrow> ('k \<rightharpoonup> string list) \<Rightarrow> ('k \<rightharpoonup> string list)" where
  "remove_everywhere n idx =
     (\<lambda>k. case idx k of
            None \<Rightarrow> None
          | Some ns \<Rightarrow> if removeAll n ns = [] then None else Some (removeAll n ns))"

text \<open>Modelled from the spec: \<^verbatim>\<open>DeleteNode(name)\<close> removes the node from \<open>EdgeNodes\<close>
  and from every value set of the configmap and secret indices.\<close>

definition DeleteNode :: "string \<Rightarrow> LocationCache \<Rightarrow> LocationCache" where
  "DeleteNode nodeName c =
     c\<lparr>EdgeNodes := (EdgeNodes c)(nodeName := None),
       ConfigMapIndex := remove_everywhere nodeName (ConfigMapIndex c),
       SecretIndex := remove_everywhere nodeName (SecretIndex c)\<rparr>"

text \<open>Modelled from the spec: \<^verbatim>\<open>AddOrUpdatePod(pod)\<close> adds \<^verbatim>\<open>pod.Spec.NodeName\<close> to the
  index entry of each configmap and secret the pod references; on update, the
  references the pod had before and has no more are the stale memberships, which are
  removed. The references are then cached in \<open>PodIndex\<close>.\<close>

definition AddOrUpdatePod :: "Pod \<Rightarrow> LocationCache \<Rightarrow> LocationCache" where
  "AddOrUpdatePod pod c =
     (let ns = Namespace pod;
          prior = (case PodIndex c (ns, Name pod) of
                     None \<Rightarrow> \<lparr>cached_ConfigMaps = [], cached_Secrets = []\<rparr>
                   | Some refs \<Rightarrow> refs);
          staleCM = filter (\<lambda>n. n \<notin> set (ConfigMapRefs pod)) (cached_ConfigMaps prior);
          staleS = filter (\<lambda>n. n \<notin> set (SecretRefs pod)) (cached_Secrets prior);
          cms = fold (\<lambda>n idx. add_member (NodeName pod) idx (ns, n)) (ConfigMapRefs pod)
                  (fold (\<lambda>n idx. remove_member (NodeName pod) idx (ns, n)) staleCM
                     (ConfigMapIndex c));
          secs = fold (\<lambda>n idx. add_member (NodeName pod) idx (ns, n)) (SecretRefs pod)
                  (fold (\<lambda>n idx. remove_member (NodeName pod) idx (ns, n)) staleS
                     (SecretIndex c))
      in c\<lparr>ConfigMapIndex := cms, SecretIndex := secs,
           PodIndex := (PodIndex c)((ns, Name pod) \<mapsto>
             \<lparr>cached_ConfigMaps = ConfigMapRefs pod, cached_Secrets = SecretRefs pod\<rparr>)\<rparr>)"

text \<open>Modelled from the spec: \<^verbatim>\<open>ConfigMapNodes(ns, name)\<close> and \<^verbatim>\<open>SecretNodes(ns, name)\<close>
  return a snapshot of the nodes of the entry (no node when there is no entry);
  \<^verbatim>\<open>DeleteConfigMap\<close> and \<^verbatim>\<open>DeleteSecret\<close> purge the entry.\<close>

definition ConfigMapNodes :: "LocationCache \<Rightarrow> string \<Rightarrow> string \<Rightarrow> string list" where
  "ConfigMapNodes c namespace name =
     (case ConfigMapIndex c (namespace, name) of None \<Rightarrow> [] | Some nodes \<Rightarrow> nodes)"

definition SecretNodes :: "LocationCache \<Rightarrow> string \<Rightarrow> string \<Rightarrow> string list" where
  "SecretNodes c namespace name =
     (case SecretIndex c (namespace, name) of None \<Rightarrow> [] | Some nodes \<Rightarrow> nodes)"

definition DeleteConfigMap :: "string \<Rightarrow> string \<Rightarrow> LocationCache \<Rightarrow> LocationCache" where
  "DeleteConfigMap namespace name c =
     c\<lparr>ConfigMapIndex := (ConfigMapIndex c)((namespace, name) := None)\<rparr>"

definition DeleteSecret :: "string \<Rightarrow> string \<Rightarrow> LocationCache \<Rightarrow> LocationCache" where
  "DeleteSecret namespace name c =
     c\<lparr>SecretIndex := (SecretIndex c)((namespace, name) := None)\<rparr>"

text \<open>Modelled from the spec: \<^verbatim>\<open>UpdateEdgeCluster(name, present)\<close> stores the entry of
  the concurrent map, \<^verbatim>\<open>DeleteEdgeCluster(name)\<close> deletes it.\<close>

definition UpdateEdgeCluster :: "string \<Rightarrow> bool \<Rightarrow> LocationCache \<Rightarrow> LocationCache" where
  "UpdateEdgeCluster name present c =
     c\<lparr>EdgeClusters := AList.update name present (EdgeClusters c)\<rparr>"

definition DeleteEdgeCluster :: "string \<Rightarrow> LocationCache \<Rightarrow> LocationCache" where
  "DeleteEdgeCluster name c = c\<lparr>EdgeClusters := AList.delete name (EdgeClusters c)\<rparr>"

text \<open>Modelled from the spec: \<^verbatim>\<open>EdgeClusters.Range(fn)\<close> calls \<open>fn\<close> on each entry in
  turn; \<open>fn\<close> returns \<open>True\<close> to proceed, and the iteration stops as soon as it returns
  \<open>False\<close>.\<close>

fun Range :: "('k \<times> 'v) list \<Rightarrow> ('k \<Rightarrow> 'v \<Rightarrow> 's \<Rightarrow> bool \<times> 's) \<Rightarrow> 's \<Rightarrow> 's" where
  "Range [] fn s = s"
| "Range ((k, v) # es) fn s =
     (case fn k v s of (True, s') \<Rightarrow> Range es fn s' | (False, s') \<Rightarrow> s')"

section \<open>The downstream controller\<close>

text \<open>
  The state a sync loop works on: the shared location cache \<open>lc\<close>, the messages handed
  to the message layer so far (\<open>sent\<close>, oldest first), the warnings written to the log,
  and what the mission lister returns when asked. \<^verbatim>\<open>SendMessage\<close> hands the envelope to
  the sink; what the transport answers is outside the model. The verbosity-gated
  \<^verbatim>\<open>klog.V(4)\<close> traces are left out.
\<close>

datatype LogEntry = Warningf string "string list"

record DownstreamController =
  lc :: LocationCache
  sent :: "Message list"
  klog :: "LogEntry list"
  missionLister :: "error + Mission list"

definition SendMessage :: "Message \<Rightarrow> DownstreamController \<Rightarrow> DownstreamController" where
  "SendMessage msg dc = dc\<lparr>sent := sent dc @ [msg]\<rparr>"

definition klog_Warningf ::
  "string \<Rightarrow> string list \<Rightarrow> DownstreamController \<Rightarrow> DownstreamController" where
  "klog_Warningf fmt args dc = dc\<lparr>klog := klog dc @ [Warningf fmt args]\<rparr>"

subsection \<open>syncSecret\<close>

text \<open>The operation switch of \<^verbatim>\<open>syncSecret\<close>: \<open>Added\<close> falls through to \<open>Modified\<close>;
  \<open>None\<close> is the \<^verbatim>\<open>default\<close> branch.\<close>

fun syncSecret_operation :: "EventType \<Rightarrow> string option" where
  "syncSecret_operation Added = Some UpdateOperation"
| "syncSecret_operation Modified = Some UpdateOperation"
| "syncSecret_operation Deleted = Some DeleteOperation"
| "syncSecret_operation _ = None"

definition syncSecret_send ::
  "Secret \<Rightarrow> string \<Rightarrow> string \<Rightarrow> DownstreamController \<Rightarrow> DownstreamController" where
  "syncSecret_send secret operation n dc =
     (case BuildResource n (Namespace secret) ResourceTypeSecret (Name secret) of
        (resource, Some err) \<Rightarrow>
          klog_Warningf ''build message resource failed with error: %s'' [err] dc
      | (resource, None) \<Rightarrow>
          SendMessage
            (FillBody (SecretContent secret)
              (BuildRouter EdgeControllerModuleName GroupResource resource operation
                (SetResourceVersion (ResourceVersion secret) (NewMessage ''''))))
            dc)"

definition syncSecret_step :: "Event \<Rightarrow> DownstreamController \<Rightarrow> DownstreamController" where
  "syncSecret_step e dc =
     (case Object e of
        SecretObject secret \<Rightarrow>
          (case syncSecret_operation (Type e) of
             None \<Rightarrow>
               klog_Warningf ''secret event type: %s unsupported'' [EventType_string (Type e)] dc
           | Some operation \<Rightarrow>
               (let nodes = SecretNodes (lc dc) (Namespace secret) (Name secret);
                    dc' = (if Type e = Deleted
                           then dc\<lparr>lc := DeleteSecret (Namespace secret) (Name secret) (lc dc)\<rparr>
                           else dc)
                in fold (syncSecret_send secret operation) nodes dc'))
      | obj \<Rightarrow> klog_Warningf ''object type: %T unsupported'' [TypeName obj] dc)"

text \<open>The loop itself: one step per event delivered before the cancellation signal.\<close>

definition syncSecret :: "Event list \<Rightarrow> DownstreamController \<Rightarrow> DownstreamController" where
  "syncSecret events dc = fold syncSecret_step events dc"

subsection \<open>syncConfigMap\<close>

fun syncConfigMap_operation :: "EventType \<Rightarrow> string option" where
  "syncConfigMap_operation Added = Some InsertOperation"
| "syncConfigMap_operation Modified = Some UpdateOperation"
| "syncConfigMap_operation Deleted = Some DeleteOperation"
| "syncConfigMap_operation _ = None"

definition syncConfigMap_send ::
  "ConfigMap \<Rightarrow> string \<Rightarrow> string \<Rightarrow> DownstreamController \<Rightarrow> DownstreamController" where
  "syncConfigMap_send configMap operation n dc =
     (case BuildResource n (Namespace configMap) ResourceTypeConfigmap (Name configMap) of
        (resource, Some err) \<Rightarrow>
          klog_Warningf ''build message resource failed with error: %s'' [err] dc
      | (resource, None) \<Rightarrow>
          SendMessage
            (FillBody (ConfigMapContent configMap)
              (BuildRouter EdgeControllerModuleName GroupResource resource operation
                (SetResourceVersion (ResourceVersion configMap) (NewMessage ''''))))
            dc)"

definition syncConfigMap_step :: "Event \<Rightarrow> DownstreamController \<Rightarrow> DownstreamController" where
  "syncConfigMap_step e dc =
     (case Object e of
        ConfigMapObject configMap \<Rightarrow>
          (case syncConfigMap_operation (Type e) of
             None \<Rightarrow>
               klog_Warningf ''config map event type: %s unsupported''
                 [EventType_string (Type e)] dc
           | Some operation \<Rightarrow>
               (let nodes = ConfigMapNodes (lc dc) (Namespace configMap) (Name configMap);
                    dc' = (if Type e = Deleted
                           then dc\<lparr>lc := DeleteConfigMap (Namespace configMap) (Name configMap)
                                          (lc dc)\<rparr>
                           else dc)
                in fold (syncConfigMap_send configMap operation) nodes dc'))
      | obj \<Rightarrow> klog_Warningf ''object type: %T unsupported'' [TypeName obj] dc)"

definition syncConfigMap :: "Event list \<Rightarrow> DownstreamController \<Rightarrow> DownstreamController" where
  "syncConfigMap events dc = fold syncConfigMap_step events dc"

subsection \<open>syncPod\<close>

definition syncPod_step :: "Event \<Rightarrow> DownstreamController \<Rightarrow> DownstreamController" where
  "syncPod_step e dc =
     (case Object e of
        PodObject pod \<Rightarrow>
          if \<not> IsEdgeNode (lc dc) (NodeName pod) then dc
          else
            (case BuildResource (NodeName pod) (Namespace pod) ResourceTypePod (Name pod) of
               (resource, Some err) \<Rightarrow>
                 klog_Warningf ''built message resource failed with error: %s'' [err] dc
             | (resource, None) \<Rightarrow>
                 (let msg = FillBody (PodContent pod)
                              (SetResourceVersion (ResourceVersion pod) (NewMessage ''''))
                  in case Type e of
                       Added \<Rightarrow>
                         SendMessage
                           (BuildRouter EdgeControllerModuleName GroupResource resource
                              InsertOperation msg)
                           (dc\<lparr>lc := AddOrUpdatePod pod (lc dc)\<rparr>)
                     | Deleted \<Rightarrow>
                         SendMessage
                           (BuildRouter EdgeControllerModuleName GroupResource resource
                              DeleteOperation msg)
                           dc
                     | Modified \<Rightarrow>
                         SendMessage
                           (BuildRouter EdgeControllerModuleName GroupResource resource
                              UpdateOperation msg)
                           (dc\<lparr>lc := AddOrUpdatePod pod (lc dc)\<rparr>)
                     | _ \<Rightarrow>
                         klog_Warningf ''pod event type: %s unsupported''
                           [EventType_string (Type e)] dc))
      | obj \<Rightarrow> klog_Warningf ''object type: %T unsupported'' [TypeName obj] dc)"

definition syncPod :: "Event list \<Rightarrow> DownstreamController \<Rightarrow> DownstreamController" where
  "syncPod events dc = fold syncPod_step events dc"

subsection \<open>syncEdgeNodes\<close>

definition NodeReady :: string where "NodeReady = ''Ready''"
definition ConditionTrue :: string where "ConditionTrue = ''True''"

text \<open>The loop over \<^verbatim>\<open>node.Status.Conditions\<close>: every \<open>Ready\<close> condition overwrites the
  cached status; the comparison with the previous status only chooses between two
  \<^verbatim>\<open>continue\<close>s.\<close>

fun syncEdgeNodes_conditions ::
  "string \<Rightarrow> NodeCondition list \<Rightarrow> DownstreamController \<Rightarrow> DownstreamController" where
  "syncEdgeNodes_conditions nodeName [] dc = dc"
| "syncEdgeNodes_conditions nodeName (nsc # rest) dc =
     (if cond_Type nsc \<noteq> NodeReady then syncEdgeNodes_conditions nodeName rest dc
      else
        (let nstatus = cond_Status nsc;
             status = fst (GetNodeStatus (lc dc) nodeName);
             dc' = dc\<lparr>lc := UpdateEdgeNode nodeName nstatus (lc dc)\<rparr>
         in if cond_Status nsc \<noteq> ConditionTrue \<or> status = nstatus
            then syncEdgeNodes_conditions nodeName rest dc'
            else syncEdgeNodes_conditions nodeName rest dc'))"

definition syncEdgeNodes_delete :: "Node \<Rightarrow> DownstreamController \<Rightarrow> DownstreamController" where
  "syncEdgeNodes_delete node dc =
     (let dc' = dc\<lparr>lc := DeleteNode (Name node) (lc dc)\<rparr>
      in case BuildResource (Name node) ''namespace'' ResourceNode (Name node) of
           (resource, Some err) \<Rightarrow>
             klog_Warningf ''Built message resource failed with error: %s'' [err] dc'
         | (resource, None) \<Rightarrow>
             SendMessage
               (BuildRouter EdgeControllerModuleName GroupResource resource DeleteOperation
                  (NewMessage ''''))
               dc')"

definition syncEdgeNodes_step :: "Event \<Rightarrow> DownstreamController \<Rightarrow> DownstreamController" where
  "syncEdgeNodes_step e dc =
     (case Object e of
        NodeObject node \<Rightarrow>
          (case Type e of
             Added \<Rightarrow> syncEdgeNodes_conditions (Name node) (Conditions node) dc
           | Modified \<Rightarrow> syncEdgeNodes_conditions (Name node) (Conditions node) dc
           | Deleted \<Rightarrow> syncEdgeNodes_delete node dc
           | _ \<Rightarrow>
               klog_Warningf ''Node event type: %s unsupported'' [EventType_string (Type e)] dc)
      | obj \<Rightarrow> klog_Warningf ''Object type: %T unsupported'' [TypeName obj] dc)"

definition syncEdgeNodes :: "Event list \<Rightarrow> DownstreamController \<Rightarrow> DownstreamController" where
  "syncEdgeNodes events dc = fold syncEdgeNodes_step events dc"

subsection \<open>syncRule and syncRuleEndpoint\<close>

definition syncRule_step :: "Event \<Rightarrow> DownstreamController \<Rightarrow> DownstreamController" where
  "syncRule_step e dc =
     (case Object e of
        RuleObject rule \<Rightarrow>
          (case BuildResourceForRouter ResourceTypeRule (Name rule) of
             (resource, Some err) \<Rightarrow>
               klog_Warningf ''built message resource failed with error: %s'' [err] dc
           | (resource, None) \<Rightarrow>
               (let msg = FillBody (RuleContent rule)
                            (SetResourceVersion (ResourceVersion rule) (NewMessage ''''))
                in case Type e of
                     Added \<Rightarrow>
                       SendMessage
                         (BuildRouter EdgeControllerModuleName GroupResource resource
                            InsertOperation msg)
                         dc
                   | Deleted \<Rightarrow>
                       SendMessage
                         (BuildRouter EdgeControllerModuleName GroupResource resource
                            DeleteOperation msg)
                         dc
                   | _ \<Rightarrow>
                       klog_Warningf ''rule event type: %s unsupported''
                         [EventType_string (Type e)] dc))
      | obj \<Rightarrow> klog_Warningf ''object type: %T unsupported'' [TypeName obj] dc)"

definition syncRule :: "Event list \<Rightarrow> DownstreamController \<Rightarrow> DownstreamController" where
  "syncRule events dc = fold syncRule_step events dc"

definition syncRuleEndpoint_step :: "Event \<Rightarrow> DownstreamController \<Rightarrow> DownstreamController" where
  "syncRuleEndpoint_step e dc =
     (case Object e of
        RuleEndpointObject ruleEndpoint \<Rightarrow>
          (case BuildResourceForRouter ResourceTypeRuleEndpoint (Name ruleEndpoint) of
             (resource, Some err) \<Rightarrow>
               klog_Warningf ''built message resource failed with error: %s'' [err] dc
           | (resource, None) \<Rightarrow>
               (let msg = FillBody (RuleEndpointContent ruleEndpoint)
                            (SetResourceVersion (ResourceVersion ruleEndpoint) (NewMessage ''''))
                in case Type e of
                     Added \<Rightarrow>
                       SendMessage
                         (BuildRouter EdgeControllerModuleName GroupResource resource
                            InsertOperation msg)
                         dc
                   | Deleted \<Rightarrow>
                       SendMessage
                         (BuildRouter EdgeControllerModuleName GroupResource resource
                            DeleteOperation msg)
                         dc
                   | _ \<Rightarrow>
                       klog_Warningf ''ruleEndpoint event type: %s unsupported''
                         [EventType_string (Type e)] dc))
      | obj \<Rightarrow> klog_Warningf ''object type: %T unsupported'' [TypeName obj] dc)"

definition syncRuleEndpoint :: "Event list \<Rightarrow> DownstreamController \<Rightarrow> DownstreamController" where
  "syncRuleEndpoint events dc = fold syncRuleEndpoint_step events dc"

subsection \<open>syncMissions\<close>

text \<open>
  The callback handed to \<^verbatim>\<open>EdgeClusters.Range\<close>. The keys of the map are the strings
  stored by \<^verbatim>\<open>UpdateEdgeCluster\<close>, so the assertion of the key to a string holds by
  typing. The callback always asks for the iteration to go on.
\<close>

definition syncMissions_visit ::
  "Mission \<Rightarrow> string \<Rightarrow> string \<Rightarrow> bool \<Rightarrow> DownstreamController \<Rightarrow> bool \<times> DownstreamController" where
  "syncMissions_visit mission operation clusterName val dc =
     (let msg = SetResourceVersion (ResourceVersion mission) (NewMessage '''')
      in case BuildResource clusterName ''default'' ResourceTypeMission (Name mission) of
           (resource, Some err) \<Rightarrow>
             (True, klog_Warningf ''Built message resource failed with error: %v'' [err] dc)
         | (resource, None) \<Rightarrow>
             (True,
              SendMessage
                ((BuildRouter EdgeControllerModuleName GroupResource resource operation msg)
                   \<lparr>Content := MissionContent mission\<rparr>)
                dc))"

text \<open>The variable \<^verbatim>\<open>operation\<close> is declared outside the \<^verbatim>\<open>for\<close>, so it is part of the
  state of the loop, next to the controller. The switch assigns it, or leaves it and
  goes on to the next event in its \<^verbatim>\<open>default\<close> branch (\<open>None\<close>).\<close>

fun syncMissions_operation :: "EventType \<Rightarrow> string option" where
  "syncMissions_operation Added = Some InsertOperation"
| "syncMissions_operation Modified = Some UpdateOperation"
| "syncMissions_operation Deleted = Some DeleteOperation"
| "syncMissions_operation _ = None"

definition syncMissions_step ::
  "Event \<Rightarrow> string \<times> DownstreamController \<Rightarrow> string \<times> DownstreamController" where
  "syncMissions_step e st =
     (case st of (operation, dc) \<Rightarrow>
        (case Object e of
           MissionObject mission \<Rightarrow>
             (case syncMissions_operation (Type e) of
                None \<Rightarrow>
                  (operation,
                   klog_Warningf ''Mission event type: %s unsupported''
                     [EventType_string (Type e)] dc)
              | Some operation' \<Rightarrow>
                  (operation',
                   Range (EdgeClusters (lc dc)) (syncMissions_visit mission operation') dc))
         | obj \<Rightarrow>
             (operation, klog_Warningf ''object type: %T unsupported'' [''*v1.Mission''] dc)))"

definition syncMissions :: "Event list \<Rightarrow> DownstreamController \<Rightarrow> DownstreamController" where
  "syncMissions events dc = snd (fold syncMissions_step events ('''', dc))"

subsection \<open>syncEdgeClusters\<close>

text \<open>
  A Go \<^verbatim>\<open>map[string]bool\<close> used as a set, kept as an association list, and
  \<^verbatim>\<open>reflect.DeepEqual\<close> on two such maps, neither of them \<^verbatim>\<open>nil\<close>: the same number of
  entries, and every key of the first bound to an equal value in the second.
\<close>

definition string_set :: "string list \<Rightarrow> (string \<times> bool) list" where
  "string_set names = fold (\<lambda>m s. AList.update m True s) names []"

definition DeepEqual :: "(string \<times> bool) list \<Rightarrow> (string \<times> bool) list \<Rightarrow> bool" where
  "DeepEqual m1 m2 =
     (length m1 = length m2 \<and> list_all (\<lambda>(k, v). map_of m2 k = Some v) m1)"

text \<open>The error returned with the resource is assigned and not looked at.\<close>

definition syncEdgeClusters_reconcile ::
  "EdgeCluster \<Rightarrow> DownstreamController \<Rightarrow> DownstreamController" where
  "syncEdgeClusters_reconcile edgeCluster dc =
     (let missionsInEdgeSet = string_set (ReceivedMissions edgeCluster)
      in case missionLister dc of
           Inl err \<Rightarrow> klog_Warningf ''Built message resource failed with error: %s'' [err] dc
         | Inr missionList \<Rightarrow>
             (let missionsInCloudSet = string_set (map Name missionList)
              in if DeepEqual missionsInEdgeSet missionsInCloudSet then dc
                 else
                   (case BuildResource (Name edgeCluster) ''default'' ResourceTypeMissionList ''''
                    of (resource, err) \<Rightarrow>
                         SendMessage
                           ((BuildRouter EdgeControllerModuleName GroupResource resource
                               UpdateOperation (NewMessage ''''))
                              \<lparr>Content := MissionListContent missionList\<rparr>)
                           dc)))"

definition syncEdgeClusters_step :: "Event \<Rightarrow> DownstreamController \<Rightarrow> DownstreamController" where
  "syncEdgeClusters_step e dc =
     (case Object e of
        EdgeClusterObject edgeCluster \<Rightarrow>
          (case Type e of
             Added \<Rightarrow> syncEdgeClusters_reconcile edgeCluster dc
           | Modified \<Rightarrow> syncEdgeClusters_reconcile edgeCluster dc
           | Deleted \<Rightarrow> dc\<lparr>lc := DeleteEdgeCluster (Name edgeCluster) (lc dc)\<rparr>
           | _ \<Rightarrow>
               klog_Warningf ''EdgeCluster event type: %s unsupported''
                 [EventType_string (Type e)] dc)
      | obj \<Rightarrow> klog_Warningf ''object type: %T unsupported'' [''*v1.EdgeCluster''] dc)"

definition syncEdgeClusters :: "Event list \<Rightarrow> DownstreamController \<Rightarrow> DownstreamController" where
  "syncEdgeClusters events dc = fold syncEdgeClusters_step events dc"

subsection \<open>initLocating and NewDownstreamController\<close>

text \<open>
  The inner loop of \<^verbatim>\<open>initLocating\<close> over the conditions of one node: the first
  \<open>Ready\<close> condition sets \<^verbatim>\<open>status\<close> and breaks; without one, \<^verbatim>\<open>status\<close> keeps the
  value it had. The variable lives outside the loop over the nodes, so it is threaded
  through it.
\<close>

fun initLocating_conditions :: "NodeCondition list \<Rightarrow> string \<Rightarrow> string" where
  "initLocating_conditions [] status = status"
| "initLocating_conditions (nsc # rest) status =
     (if cond_Type nsc = ''Ready'' then cond_Status nsc
      else initLocating_conditions rest status)"

fun initLocating_nodes :: "Node list \<Rightarrow> string \<Rightarrow> LocationCache \<Rightarrow> LocationCache" where
  "initLocating_nodes [] status c = c"
| "initLocating_nodes (node # rest) status c =
     (let status' = initLocating_conditions (Conditions node) status
      in initLocating_nodes rest status' (UpdateEdgeNode (Name node) status' c))"

definition initLocating_pods :: "Pod list \<Rightarrow> LocationCache \<Rightarrow> LocationCache" where
  "initLocating_pods pods c =
     fold (\<lambda>p c. if IsEdgeNode c (NodeName p) then AddOrUpdatePod p c else c) pods c"

definition initLocating_edgeclusters :: "EdgeCluster list \<Rightarrow> LocationCache \<Rightarrow> LocationCache" where
  "initLocating_edgeclusters ecs c = fold (\<lambda>ec c. UpdateEdgeCluster (Name ec) True c) ecs c"

text \<open>
  The three arguments are the answers of the API server to the three \<^verbatim>\<open>List\<close> calls
  (the nodes carrying the edge-role label, all pods, all edge clusters). The result is
  the error returned, if any, and the cache as \<^verbatim>\<open>initLocating\<close> leaves it.
\<close>

definition initLocating ::
  "error + Node list \<Rightarrow> error + Pod list \<Rightarrow> error + EdgeCluster list \<Rightarrow> LocationCache
   \<Rightarrow> error option \<times> LocationCache" where
  "initLocating nodes pods edgeclusters c =
     (case nodes of
        Inl err \<Rightarrow> (Some err, c)
      | Inr nodeItems \<Rightarrow>
          (let c1 = initLocating_nodes nodeItems '''' c
           in case pods of
                Inl err \<Rightarrow> (Some err, c1)
              | Inr podItems \<Rightarrow>
                  (let c2 = initLocating_pods podItems c1
                   in case edgeclusters of
                        Inl err \<Rightarrow> (Some err, c2)
                      | Inr ecItems \<Rightarrow> (None, initLocating_edgeclusters ecItems c2))))"

text \<open>
  The constructor starts from the empty cache, primes it with \<^verbatim>\<open>initLocating\<close> and fails
  when that fails. The managers and informers it wires before belong to the watch source
  and are not modelled; \<open>lister\<close> is what the mission lister returns.
\<close>

definition NewDownstreamController ::
  "error + Node list \<Rightarrow> error + Pod list \<Rightarrow> error + EdgeCluster list \<Rightarrow> error + Mission list
   \<Rightarrow> error + DownstreamController" where
  "NewDownstreamController nodes pods edgeclusters lister =
     (case initLocating nodes pods edgeclusters empty_LocationCache of
        (Some err, c) \<Rightarrow> Inl err
      | (None, c) \<Rightarrow> Inr \<lparr>lc = c, sent = [], klog = [], missionLister = lister\<rparr>)"

subsection \<open>Start\<close>

text \<open>
  \<^verbatim>\<open>Start\<close> launches the eight loops, each on its own queue. A run of the controller is
  an interleaving of the events taken from the queues, one step of the owning loop per
  event; \<open>ListerRefresh\<close> is a change of what the mission lister returns. The first
  component of the state is the \<^verbatim>\<open>operation\<close> variable of \<^verbatim>\<open>syncMissions\<close>.
\<close>

datatype QueueEvent =
    FromPodManager Event
  | FromConfigmapManager Event
  | FromSecretManager Event
  | FromNodeManager Event
  | FromRulesManager Event
  | FromRuleEndpointsManager Event
  | FromMissionsManager Event
  | FromEdgeClusterManager Event
  | ListerRefresh "error + Mission list"

fun Start_step ::
  "QueueEvent \<Rightarrow> string \<times> DownstreamController \<Rightarrow> string \<times> DownstreamController" where
  "Start_step (FromPodManager e) (opr, dc) = (opr, syncPod_step e dc)"
| "Start_step (FromConfigmapManager e) (opr, dc) = (opr, syncConfigMap_step e dc)"
| "Start_step (FromSecretManager e) (opr, dc) = (opr, syncSecret_step e dc)"
| "Start_step (FromNodeManager e) (opr, dc) = (opr, syncEdgeNodes_step e dc)"
| "Start_step (FromRulesManager e) (opr, dc) = (opr, syncRule_step e dc)"
| "Start_step (FromRuleEndpointsManager e) (opr, dc) = (opr, syncRuleEndpoint_step e dc)"
| "Start_step (FromMissionsManager e) (opr, dc) = syncMissions_step e (opr, dc)"
| "Start_step (FromEdgeClusterManager e) (opr, dc) = (opr, syncEdgeClusters_step e dc)"
| "Start_step (ListerRefresh l) (opr, dc) = (opr, dc\<lparr>missionLister := l\<rparr>)"

definition Start_run ::
  "QueueEvent list \<Rightarrow> DownstreamController \<Rightarrow> DownstreamController" where
  "Start_run events dc = snd (fold Start_step events ('''', dc))"

text \<open>The messages handed to the message layer on the way from state \<open>dc\<close> to a later
  state \<open>dc'\<close>.\<close>

definition emitted :: "DownstreamController \<Rightarrow> DownstreamController \<Rightarrow> Message list" where
  "emitted dc dc' = drop (length (sent dc)) (sent dc')"

text \<open>A mission message routed to the edge cluster \<open>cluster\<close>: the content is a mission
  and the resource is the path of that mission at that cluster.\<close>

definition mission_message_for :: "string \<Rightarrow> Message \<Rightarrow> bool" where
  "mission_message_for cluster msg =
     (case Content msg of
        MissionContent mission \<Rightarrow>
          Router_Resource msg = cluster @ ''/default/mission/'' @ Name mission
      | _ \<Rightarrow> False)"

text \<open>\<^verbatim>\<open>GetResourceVersion\<close> of the object carried by an event.\<close>

fun GetResourceVersion :: "runtime_Object \<Rightarrow> string" where
  "GetResourceVersion (PodObject pod) = ResourceVersion pod"
| "GetResourceVersion (ConfigMapObject configMap) = ResourceVersion configMap"
| "GetResourceVersion (SecretObject secret) = ResourceVersion secret"
| "GetResourceVersion (NodeObject node) = ResourceVersion node"
| "GetResourceVersion (RuleObject rule) = ResourceVersion rule"
| "GetResourceVersion (RuleEndpointObject ruleEndpoint) = ResourceVersion ruleEndpoint"
| "GetResourceVersion (MissionObject mission) = ResourceVersion mission"
| "GetResourceVersion (EdgeClusterObject edgeCluster) = ResourceVersion edgeCluster"

subsection \<open>A running example\<close>

text \<open>
  The deployment of the specification's end-to-end scenarios, used to instantiate the
  theorems below: two ready edge nodes \<open>n1\<close> and \<open>n2\<close>; in namespace \<open>app\<close> a pod on
  \<open>n1\<close> mounting configmap \<open>c1\<close> and secret \<open>s1\<close> and a pod on \<open>n2\<close> mounting \<open>c1\<close>;
  edge clusters \<open>ec1\<close> and \<open>ec2\<close>; missions \<open>m1\<close>, \<open>m2\<close>, \<open>m3\<close> in the cloud. The
  controller is the one \<^verbatim>\<open>initLocating\<close> primes from these lists.
\<close>

definition scenario_nodes :: "Node list" where
  "scenario_nodes =
     [\<lparr>Name = ''n1'', Namespace = '''', ResourceVersion = ''11'',
        Conditions = [\<lparr>cond_Type = ''Ready'', cond_Status = ''True''\<rparr>]\<rparr>,
      \<lparr>Name = ''n2'', Namespace = '''', ResourceVersion = ''12'',
        Conditions = [\<lparr>cond_Type = ''Ready'', cond_Status = ''True''\<rparr>]\<rparr>]"

definition scenario_pods :: "Pod list" where
  "scenario_pods =
     [\<lparr>Name = ''p1'', Namespace = ''app'', ResourceVersion = ''21'', NodeName = ''n1'',
        ConfigMapRefs = [''c1''], SecretRefs = [''s1'']\<rparr>,
      \<lparr>Name = ''p2'', Namespace = ''app'', ResourceVersion = ''22'', NodeName = ''n2'',
        ConfigMapRefs = [''c1''], SecretRefs = []\<rparr>]"

definition scenario_edgeclusters :: "EdgeCluster list" where
  "scenario_edgeclusters =
     [\<lparr>Name = ''ec1'', Namespace = '''', ResourceVersion = ''31'',
        ReceivedMissions = [''m1'', ''m2'']\<rparr>,
      \<lparr>Name = ''ec2'', Namespace = '''', ResourceVersion = ''32'',
        ReceivedMissions = [''m1'', ''m2'', ''m3'']\<rparr>]"

definition scenario_missions :: "Mission list" where
  "scenario_missions =
     [\<lparr>Name = ''m1'', Namespace = ''default'', ResourceVersion = ''41''\<rparr>,
      \<lparr>Name = ''m2'', Namespace = ''default'', ResourceVersion = ''42''\<rparr>,
      \<lparr>Name = ''m3'', Namespace = ''default'', ResourceVersion = ''43''\<rparr>]"

definition scenario_cache :: LocationCache where
  "scenario_cache =
     snd (initLocating (Inr scenario_nodes) (Inr scenario_pods) (Inr scenario_edgeclusters)
            empty_LocationCache)"

definition scenario_dc :: DownstreamController where
  "scenario_dc =
     \<lparr>lc = scenario_cache, sent = [], klog = [], missionLister = Inr scenario_missions\<rparr>"

section \<open>Properties\<close>

lemmas model_constants =
  InsertOperation_def UpdateOperation_def DeleteOperation_def EdgeControllerModuleName_def
  GroupResource_def ResourceTypePod_def ResourceTypeConfigmap_def ResourceTypeSecret_def
  ResourceNode_def ResourceTypeRule_def ResourceTypeRuleEndpoint_def ResourceTypeMission_def
  ResourceTypeMissionList_def

lemmas message_builders =
  NewMessage_def SetResourceVersion_def BuildRouter_def FillBody_def

subsection \<open>The sink, the log and the resource builder\<close>

lemma sent_SendMessage [simp]: "sent (SendMessage msg dc) = sent dc @ [msg]"
  by (simp add: SendMessage_def)

lemma lc_SendMessage [simp]: "lc (SendMessage msg dc) = lc dc"
  by (simp add: SendMessage_def)

lemma klog_SendMessage [simp]: "klog (SendMessage msg dc) = klog dc"
  by (simp add: SendMessage_def)

lemma sent_klog_Warningf [simp]: "sent (klog_Warningf fmt args dc) = sent dc"
  by (simp add: klog_Warningf_def)

lemma lc_klog_Warningf [simp]: "lc (klog_Warningf fmt args dc) = lc dc"
  by (simp add: klog_Warningf_def)

lemma klog_klog_Warningf [simp]:
  "klog (klog_Warningf fmt args dc) = klog dc @ [Warningf fmt args]"
  by (simp add: klog_Warningf_def)

lemma emitted_append: "sent dc' = sent dc @ new \<Longrightarrow> emitted dc dc' = new"
  by (simp add: emitted_def)

lemma emitted_self [simp]: "emitted dc dc = []"
  by (simp add: emitted_def)

lemma BuildResource_ok:
  "snd (BuildResource n ns k r) = None \<longleftrightarrow> n \<noteq> '''' \<and> ns \<noteq> '''' \<and> k \<noteq> ''''"
  by (simp add: BuildResource_def)

lemma BuildResource_path:
  "snd (BuildResource n ns k r) = None \<Longrightarrow>
   fst (BuildResource n ns k r) = n @ ''/'' @ ns @ ''/'' @ k @ ''/'' @ r"
  by (simp add: BuildResource_def split: if_splits)

subsection \<open>The running example, evaluated\<close>

lemmas scenario_defs =
  scenario_cache_def initLocating_def scenario_nodes_def scenario_pods_def
  scenario_edgeclusters_def empty_LocationCache_def initLocating_pods_def
  initLocating_edgeclusters_def UpdateEdgeCluster_def UpdateEdgeNode_def IsEdgeNode_def
  AddOrUpdatePod_def add_member_def remove_member_def Let_def

lemma scenario_EdgeClusters:
  "EdgeClusters scenario_cache = [(''ec1'', True), (''ec2'', True)]"
  by (simp add: scenario_defs)


lemma scenario_SecretNodes: "SecretNodes scenario_cache ''app'' ''s1'' = [''n1'']"
  by (simp add: scenario_defs SecretNodes_def)


lemma scenario_dc_simps [simp]:
  "lc scenario_dc = scenario_cache"
  "sent scenario_dc = []"
  "klog scenario_dc = []"
  "missionLister scenario_dc = Inr scenario_missions"
  by (simp_all add: scenario_dc_def)

subsection \<open>The secret loop\<close>

lemma syncSecret_send_lc [simp]: "lc (syncSecret_send s opr n dc) = lc dc"
  by (simp add: syncSecret_send_def split: prod.splits option.splits)

lemma syncSecret_send_sent:
  "sent (syncSecret_send s opr n dc) =
     sent dc @
     (if snd (BuildResource n (Namespace s) ResourceTypeSecret (Name s)) = None
      then [\<lparr>Header_ParentID = '''', Header_ResourceVersion = ResourceVersion s,
             Router_Source = ''edgecontroller'', Router_Group = ''resource'',
             Router_Resource = n @ ''/'' @ Namespace s @ ''/secret/'' @ Name s,
             Router_Operation = opr, Content = SecretContent s\<rparr>]
      else [])"
  by (simp add: syncSecret_send_def BuildResource_def message_builders model_constants)

lemma syncSecret_fold_lc [simp]: "lc (fold (syncSecret_send s opr) nodes dc) = lc dc"
  by (induction nodes arbitrary: dc) simp_all

lemma syncSecret_fold_sent:
  "sent (fold (syncSecret_send s opr) nodes dc) =
     sent dc @
     map (\<lambda>n. \<lparr>Header_ParentID = '''', Header_ResourceVersion = ResourceVersion s,
               Router_Source = ''edgecontroller'', Router_Group = ''resource'',
               Router_Resource = n @ ''/'' @ Namespace s @ ''/secret/'' @ Name s,
               Router_Operation = opr, Content = SecretContent s\<rparr>)
       (filter (\<lambda>n. snd (BuildResource n (Namespace s) ResourceTypeSecret (Name s)) = None)
          nodes)"
  by (induction nodes arbitrary: dc) (simp_all add: syncSecret_send_sent)

lemma syncSecret_step_sent:
  assumes "Object e = SecretObject s" and "syncSecret_operation (Type e) = Some opr"
  shows "sent (syncSecret_step e dc) =
     sent dc @
     map (\<lambda>n. \<lparr>Header_ParentID = '''', Header_ResourceVersion = ResourceVersion s,
               Router_Source = ''edgecontroller'', Router_Group = ''resource'',
               Router_Resource = n @ ''/'' @ Namespace s @ ''/secret/'' @ Name s,
               Router_Operation = opr, Content = SecretContent s\<rparr>)
       (filter (\<lambda>n. snd (BuildResource n (Namespace s) ResourceTypeSecret (Name s)) = None)
          (SecretNodes (lc dc) (Namespace s) (Name s)))"
  using assms by (simp add: syncSecret_step_def Let_def syncSecret_fold_sent)

lemma syncSecret_step_sent_other:
  assumes "(\<forall>s. Object e \<noteq> SecretObject s) \<or> syncSecret_operation (Type e) = None"
  shows "sent (syncSecret_step e dc) = sent dc"
  using assms by (auto simp: syncSecret_step_def split: runtime_Object.splits option.splits)

lemma syncSecret_step_EdgeClusters [simp]:
  "EdgeClusters (lc (syncSecret_step e dc)) = EdgeClusters (lc dc)"
  by (simp add: syncSecret_step_def Let_def DeleteSecret_def
      split: runtime_Object.splits option.splits)

text \<open>
  Claim C3. On an \<open>Added\<close> secret event every message the secret loop hands to the sink
  has the operation \<open>update\<close>, never \<open>insert\<close>: there is one message per node
  referencing the secret whose resource identifier can be built, and the whole step is
  the step the same object takes on a \<open>Modified\<close> event.
\<close>

theorem syncSecret_added_maps_to_update:
  assumes "Type e = Added" and "Object e = SecretObject secret"
  shows "(\<forall>msg \<in> set (emitted dc (syncSecret_step e dc)).
            Router_Operation msg = ''update'' \<and> Router_Operation msg \<noteq> ''insert'')
       \<and> length (emitted dc (syncSecret_step e dc)) =
           length (filter (\<lambda>n. snd (BuildResource n (Namespace secret) ResourceTypeSecret
                                      (Name secret)) = None)
                     (SecretNodes (lc dc) (Namespace secret) (Name secret)))
       \<and> syncSecret_step e dc = syncSecret_step (e\<lparr>Type := Modified\<rparr>) dc"
proof -
  have opr: "syncSecret_operation (Type e) = Some ''update''"
    using assms(1) by (simp add: UpdateOperation_def)
  note sent = syncSecret_step_sent [OF assms(2) opr, of dc]
  have em: "emitted dc (syncSecret_step e dc) =
     map (\<lambda>n. \<lparr>Header_ParentID = '''', Header_ResourceVersion = ResourceVersion secret,
               Router_Source = ''edgecontroller'', Router_Group = ''resource'',
               Router_Resource = n @ ''/'' @ Namespace secret @ ''/secret/'' @ Name secret,
               Router_Operation = ''update'', Content = SecretContent secret\<rparr>)
       (filter (\<lambda>n. snd (BuildResource n (Namespace secret) ResourceTypeSecret
                          (Name secret)) = None)
          (SecretNodes (lc dc) (Namespace secret) (Name secret)))"
    by (rule emitted_append) (rule sent)
  have same: "syncSecret_step e dc = syncSecret_step (e\<lparr>Type := Modified\<rparr>) dc"
    using assms by (simp add: syncSecret_step_def)
  show ?thesis
    unfolding em using same by auto
qed

theorem syncSecret_added_maps_to_update_witness:
  "map Router_Operation
     (emitted scenario_dc
        (syncSecret_step
           \<lparr>Type = Added,
            Object = SecretObject \<lparr>Name = ''s1'', Namespace = ''app'', ResourceVersion = ''5''\<rparr>\<rparr>
           scenario_dc)) = [''update'']"
proof -
  let ?s = "\<lparr>Name = ''s1'', Namespace = ''app'', ResourceVersion = ''5''\<rparr>"
  let ?e = "\<lparr>Type = Added, Object = SecretObject ?s\<rparr>"
  have h: "Type ?e = Added" "Object ?e = SecretObject ?s"
    by simp_all
  note w = syncSecret_added_maps_to_update [OF h, of scenario_dc]
  have "length (emitted scenario_dc (syncSecret_step ?e scenario_dc)) = 1"
    using w [THEN conjunct2, THEN conjunct1]
    by (simp add: scenario_SecretNodes BuildResource_def ResourceTypeSecret_def)
  moreover have "\<forall>msg \<in> set (emitted scenario_dc (syncSecret_step ?e scenario_dc)).
           Router_Operation msg = ''update''"
    using w [THEN conjunct1] by blast
  ultimately show ?thesis
    by (cases "emitted scenario_dc (syncSecret_step ?e scenario_dc)") simp_all
qed

subsection \<open>The configmap loop\<close>

lemma syncConfigMap_send_lc [simp]: "lc (syncConfigMap_send cm opr n dc) = lc dc"
  by (simp add: syncConfigMap_send_def split: prod.splits option.splits)

lemma syncConfigMap_send_sent:
  "sent (syncConfigMap_send cm opr n dc) =
     sent dc @
     (if snd (BuildResource n (Namespace cm) ResourceTypeConfigmap (Name cm)) = None
      then [\<lparr>Header_ParentID = '''', Header_ResourceVersion = ResourceVersion cm,
             Router_Source = ''edgecontroller'', Router_Group = ''resource'',
             Router_Resource = n @ ''/'' @ Namespace cm @ ''/configmap/'' @ Name cm,
             Router_Operation = opr, Content = ConfigMapContent cm\<rparr>]
      else [])"
  by (simp add: syncConfigMap_send_def BuildResource_def message_builders model_constants)

lemma syncConfigMap_fold_lc [simp]: "lc (fold (syncConfigMap_send cm opr) nodes dc) = lc dc"
  by (induction nodes arbitrary: dc) simp_all

lemma syncConfigMap_fold_sent:
  "sent (fold (syncConfigMap_send cm opr) nodes dc) =
     sent dc @
     map (\<lambda>n. \<lparr>Header_ParentID = '''', Header_ResourceVersion = ResourceVersion cm,
               Router_Source = ''edgecontroller'', Router_Group = ''resource'',
               Router_Resource = n @ ''/'' @ Namespace cm @ ''/configmap/'' @ Name cm,
               Router_Operation = opr, Content = ConfigMapContent cm\<rparr>)
       (filter (\<lambda>n. snd (BuildResource n (Namespace cm) ResourceTypeConfigmap (Name cm)) = None)
          nodes)"
  by (induction nodes arbitrary: dc) (simp_all add: syncConfigMap_send_sent)

lemma syncConfigMap_step_sent:
  assumes "Object e = ConfigMapObject cm" and "syncConfigMap_operation (Type e) = Some opr"
  shows "sent (syncConfigMap_step e dc) =
     sent dc @
     map (\<lambda>n. \<lparr>Header_ParentID = '''', Header_ResourceVersion = ResourceVersion cm,
               Router_Source = ''edgecontroller'', Router_Group = ''resource'',
               Router_Resource = n @ ''/'' @ Namespace cm @ ''/configmap/'' @ Name cm,
               Router_Operation = opr, Content = ConfigMapContent cm\<rparr>)
       (filter (\<lambda>n. snd (BuildResource n (Namespace cm) ResourceTypeConfigmap (Name cm)) = None)
          (ConfigMapNodes (lc dc) (Namespace cm) (Name cm)))"
  using assms by (simp add: syncConfigMap_step_def Let_def syncConfigMap_fold_sent)

lemma syncConfigMap_step_sent_other:
  assumes "(\<forall>cm. Object e \<noteq> ConfigMapObject cm) \<or> syncConfigMap_operation (Type e) = None"
  shows "sent (syncConfigMap_step e dc) = sent dc"
  using assms by (auto simp: syncConfigMap_step_def split: runtime_Object.splits option.splits)


lemma syncConfigMap_step_EdgeClusters [simp]:
  "EdgeClusters (lc (syncConfigMap_step e dc)) = EdgeClusters (lc dc)"
  by (simp add: syncConfigMap_step_def Let_def DeleteConfigMap_def
      split: runtime_Object.splits option.splits)

lemma ConfigMapNodes_DeleteConfigMap [simp]:
  "ConfigMapNodes (DeleteConfigMap ns name c) ns name = []"
  by (simp add: ConfigMapNodes_def DeleteConfigMap_def)



subsection \<open>The mission loop\<close>

lemma syncMissions_visit_continue [simp]: "fst (syncMissions_visit m opr c v dc) = True"
  by (simp add: syncMissions_visit_def Let_def split: prod.splits option.splits)

lemma syncMissions_visit_lc [simp]: "lc (snd (syncMissions_visit m opr c v dc)) = lc dc"
  by (simp add: syncMissions_visit_def Let_def split: prod.splits option.splits)

lemma syncMissions_visit_sent:
  "sent (snd (syncMissions_visit m opr c v dc)) =
     sent dc @
     (if snd (BuildResource c ''default'' ResourceTypeMission (Name m)) = None
      then [\<lparr>Header_ParentID = '''', Header_ResourceVersion = ResourceVersion m,
             Router_Source = ''edgecontroller'', Router_Group = ''resource'',
             Router_Resource = c @ ''/default/mission/'' @ Name m,
             Router_Operation = opr, Content = MissionContent m\<rparr>]
      else [])"
  by (simp add: syncMissions_visit_def BuildResource_def message_builders model_constants)

lemma Range_syncMissions_visit:
  "Range ((c, v) # es) (syncMissions_visit m opr) dc =
     Range es (syncMissions_visit m opr) (snd (syncMissions_visit m opr c v dc))"
  using syncMissions_visit_continue [of m opr c v dc]
  by (cases "syncMissions_visit m opr c v dc") simp

lemma Range_syncMissions_lc [simp]: "lc (Range es (syncMissions_visit m opr) dc) = lc dc"
proof (induction es arbitrary: dc)
  case Nil
  show ?case by simp
next
  case (Cons entry es)
  then show ?case
    by (cases entry) (simp only: Range_syncMissions_visit syncMissions_visit_lc)
qed

lemma Range_syncMissions_sent:
  "sent (Range es (syncMissions_visit m opr) dc) =
     sent dc @
     map (\<lambda>c. \<lparr>Header_ParentID = '''', Header_ResourceVersion = ResourceVersion m,
               Router_Source = ''edgecontroller'', Router_Group = ''resource'',
               Router_Resource = c @ ''/default/mission/'' @ Name m,
               Router_Operation = opr, Content = MissionContent m\<rparr>)
       (filter (\<lambda>c. snd (BuildResource c ''default'' ResourceTypeMission (Name m)) = None)
          (map fst es))"
proof (induction es arbitrary: dc)
  case Nil
  show ?case by simp
next
  case (Cons entry es)
  obtain c v where entry: "entry = (c, v)" by (cases entry)
  show ?case
    unfolding entry Range_syncMissions_visit Cons.IH syncMissions_visit_sent
    by simp
qed

lemma syncMissions_step_supported:
  assumes "Object e = MissionObject m" and "syncMissions_operation (Type e) = Some opr"
  shows "syncMissions_step e (opr0, dc) =
           (opr, Range (EdgeClusters (lc dc)) (syncMissions_visit m opr) dc)"
  using assms by (simp add: syncMissions_step_def)

lemma syncMissions_step_other:
  assumes "(\<forall>m. Object e \<noteq> MissionObject m) \<or> syncMissions_operation (Type e) = None"
  shows "sent (snd (syncMissions_step e (opr0, dc))) = sent dc"
    and "lc (snd (syncMissions_step e (opr0, dc))) = lc dc"
  using assms
  by (auto simp: syncMissions_step_def split: runtime_Object.splits option.splits)

lemma syncMissions_step_lc [simp]: "lc (snd (syncMissions_step e (opr0, dc))) = lc dc"
proof (cases "\<exists>m opr. Object e = MissionObject m \<and> syncMissions_operation (Type e) = Some opr")
  case True
  then show ?thesis by (auto simp: syncMissions_step_supported)
next
  case False
  then have "(\<forall>m. Object e \<noteq> MissionObject m) \<or> syncMissions_operation (Type e) = None"
    by (cases "syncMissions_operation (Type e)") auto
  then show ?thesis by (rule syncMissions_step_other)
qed



subsection \<open>The pod loop\<close>



lemma syncPod_step_build_failure:
  assumes "Object e = PodObject pod" and "IsEdgeNode (lc dc) (NodeName pod)"
    and "snd (BuildResource (NodeName pod) (Namespace pod) ResourceTypePod (Name pod)) = Some err"
  shows "syncPod_step e dc =
           klog_Warningf ''built message resource failed with error: %s'' [err] dc"
  using assms
  by (cases "BuildResource (NodeName pod) (Namespace pod) ResourceTypePod (Name pod)")
    (simp add: syncPod_step_def)

lemma syncPod_step_wrong_type:
  assumes "\<forall>pod. Object e \<noteq> PodObject pod"
  shows "syncPod_step e dc = klog_Warningf ''object type: %T unsupported'' [TypeName (Object e)] dc"
  using assms by (simp add: syncPod_step_def split: runtime_Object.splits)

lemma EdgeClusters_AddOrUpdatePod [simp]:
  "EdgeClusters (AddOrUpdatePod pod c) = EdgeClusters c"
  by (simp add: AddOrUpdatePod_def Let_def)

lemma syncPod_step_EdgeClusters [simp]:
  "EdgeClusters (lc (syncPod_step e dc)) = EdgeClusters (lc dc)"
  by (simp add: syncPod_step_def Let_def
      split: runtime_Object.splits prod.splits option.splits EventType.splits)



subsection \<open>The node loop\<close>

lemma syncEdgeNodes_conditions_sent [simp]:
  "sent (syncEdgeNodes_conditions name conds dc) = sent dc"
  by (induction conds arbitrary: dc) (simp_all add: Let_def)

lemma syncEdgeNodes_conditions_EdgeClusters [simp]:
  "EdgeClusters (lc (syncEdgeNodes_conditions name conds dc)) = EdgeClusters (lc dc)"
  by (induction conds arbitrary: dc) (simp_all add: Let_def UpdateEdgeNode_def)

lemma syncEdgeNodes_delete_lc [simp]:
  "lc (syncEdgeNodes_delete node dc) = DeleteNode (Name node) (lc dc)"
  by (simp add: syncEdgeNodes_delete_def Let_def split: prod.splits option.splits)

lemma syncEdgeNodes_delete_sent:
  "sent (syncEdgeNodes_delete node dc) =
     sent dc @
     (if Name node \<noteq> ''''
      then [\<lparr>Header_ParentID = '''', Header_ResourceVersion = '''',
             Router_Source = ''edgecontroller'', Router_Group = ''resource'',
             Router_Resource = Name node @ ''/namespace/node/'' @ Name node,
             Router_Operation = ''delete'', Content = NoContent\<rparr>]
      else [])"
  by (simp add: syncEdgeNodes_delete_def Let_def BuildResource_def message_builders
      model_constants)

lemma syncEdgeNodes_step_Deleted:
  assumes "Object e = NodeObject node" and "Type e = Deleted"
  shows "syncEdgeNodes_step e dc = syncEdgeNodes_delete node dc"
  using assms by (simp add: syncEdgeNodes_step_def)

lemma syncEdgeNodes_step_EdgeClusters [simp]:
  "EdgeClusters (lc (syncEdgeNodes_step e dc)) = EdgeClusters (lc dc)"
  by (simp add: syncEdgeNodes_step_def DeleteNode_def
      split: runtime_Object.splits EventType.splits)

lemma DeleteNode_not_edge [simp]: "\<not> IsEdgeNode (DeleteNode n c) n"
  by (simp add: IsEdgeNode_def DeleteNode_def)

lemma remove_everywhere_absent:
  "n \<notin> set (case remove_everywhere n idx k of None \<Rightarrow> [] | Some ns \<Rightarrow> ns)"
  by (simp add: remove_everywhere_def split: option.splits)

lemma DeleteNode_ConfigMapNodes [simp]: "n \<notin> set (ConfigMapNodes (DeleteNode n c) ns name)"
  using remove_everywhere_absent [of n "ConfigMapIndex c" "(ns, name)"]
  by (simp add: ConfigMapNodes_def DeleteNode_def)

lemma DeleteNode_SecretNodes [simp]: "n \<notin> set (SecretNodes (DeleteNode n c) ns name)"
  using remove_everywhere_absent [of n "SecretIndex c" "(ns, name)"]
  by (simp add: SecretNodes_def DeleteNode_def)



subsection \<open>The edge-cluster loop\<close>

lemma string_set_fold:
  "map_of (fold (\<lambda>m s. AList.update m True s) names acc) =
     (\<lambda>k. if k \<in> set names then Some True else map_of acc k)"
  by (induction names arbitrary: acc) (auto simp: update_conv' fun_eq_iff)

lemma string_set_fold_distinct:
  "distinct (map fst acc) \<Longrightarrow>
   distinct (map fst (fold (\<lambda>m s. AList.update m True s) names acc))"
  by (induction names arbitrary: acc) (simp_all add: distinct_update)

lemma string_set_fold_keys:
  "fst ` set (fold (\<lambda>m s. AList.update m True s) names acc) = set names \<union> fst ` set acc"
  by (induction names arbitrary: acc) (auto simp: dom_update)

lemma map_of_string_set:
  "map_of (string_set names) k = (if k \<in> set names then Some True else None)"
  by (simp add: string_set_def string_set_fold)

lemma distinct_string_set: "distinct (map fst (string_set names))"
  by (simp add: string_set_def string_set_fold_distinct)

lemma keys_string_set: "fst ` set (string_set names) = set names"
  by (simp add: string_set_def string_set_fold_keys)

lemma length_string_set: "length (string_set names) = card (set names)"
proof -
  have "card (set names) = card (set (map fst (string_set names)))"
    by (simp add: keys_string_set)
  also have "\<dots> = length (map fst (string_set names))"
    by (rule distinct_card) (rule distinct_string_set)
  finally show ?thesis by simp
qed

lemma DeepEqual_string_set:
  "DeepEqual (string_set xs) (string_set ys) \<longleftrightarrow> set xs = set ys"
proof
  assume eq: "DeepEqual (string_set xs) (string_set ys)"
  then have len: "card (set xs) = card (set ys)"
    by (simp add: DeepEqual_def length_string_set)
  have "set xs \<subseteq> set ys"
  proof
    fix k
    assume "k \<in> set xs"
    then have "k \<in> fst ` set (string_set xs)"
      by (simp add: keys_string_set)
    then obtain v where "(k, v) \<in> set (string_set xs)"
      by auto
    with eq have "map_of (string_set ys) k = Some v"
      by (auto simp: DeepEqual_def list_all_iff)
    then show "k \<in> set ys"
      by (simp add: map_of_string_set split: if_splits)
  qed
  then show "set xs = set ys"
    using len by (simp add: card_subset_eq)
next
  assume eq: "set xs = set ys"
  have "map_of (string_set ys) k = Some v" if "(k, v) \<in> set (string_set xs)" for k v
  proof -
    from that have "map_of (string_set xs) k = Some v"
      by (simp add: distinct_string_set)
    then show ?thesis
      by (simp add: map_of_string_set eq)
  qed
  then show "DeepEqual (string_set xs) (string_set ys)"
    by (auto simp: DeepEqual_def length_string_set eq list_all_iff)
qed

lemma syncEdgeClusters_reconcile_lc [simp]:
  "lc (syncEdgeClusters_reconcile ec dc) = lc dc"
  by (simp add: syncEdgeClusters_reconcile_def Let_def split: sum.splits prod.splits)

lemma syncEdgeClusters_reconcile_sent:
  "sent (syncEdgeClusters_reconcile ec dc) =
     sent dc @
     (case missionLister dc of
        Inl err \<Rightarrow> []
      | Inr missionList \<Rightarrow>
          if set (ReceivedMissions ec) = set (map Name missionList) then []
          else [\<lparr>Header_ParentID = '''', Header_ResourceVersion = '''',
                 Router_Source = ''edgecontroller'', Router_Group = ''resource'',
                 Router_Resource =
                   fst (BuildResource (Name ec) ''default'' ResourceTypeMissionList ''''),
                 Router_Operation = ''update'',
                 Content = MissionListContent missionList\<rparr>])"
  by (simp add: syncEdgeClusters_reconcile_def Let_def DeepEqual_string_set message_builders
      EdgeControllerModuleName_def GroupResource_def UpdateOperation_def
      split: sum.splits prod.splits)

lemma syncEdgeClusters_reconcile_klog:
  "klog (syncEdgeClusters_reconcile ec dc) =
     klog dc @
     (case missionLister dc of
        Inl err \<Rightarrow> [Warningf ''Built message resource failed with error: %s'' [err]]
      | Inr missionList \<Rightarrow> [])"
  by (simp add: syncEdgeClusters_reconcile_def Let_def split: sum.splits prod.splits)

lemma syncEdgeClusters_step_reconcile:
  assumes "Object e = EdgeClusterObject ec" and "Type e = Added \<or> Type e = Modified"
  shows "syncEdgeClusters_step e dc = syncEdgeClusters_reconcile ec dc"
  using assms by (auto simp: syncEdgeClusters_step_def)

lemma syncEdgeClusters_step_sent_other:
  assumes "(\<forall>ec. Object e \<noteq> EdgeClusterObject ec) \<or> (Type e \<noteq> Added \<and> Type e \<noteq> Modified)"
  shows "sent (syncEdgeClusters_step e dc) = sent dc"
  using assms
  by (auto simp: syncEdgeClusters_step_def split: runtime_Object.splits EventType.splits)

lemma syncEdgeClusters_step_EdgeClusters:
  "EdgeClusters (lc (syncEdgeClusters_step e dc)) =
     (case Object e of
        EdgeClusterObject ec \<Rightarrow>
          if Type e = Deleted then AList.delete (Name ec) (EdgeClusters (lc dc))
          else EdgeClusters (lc dc)
      | _ \<Rightarrow> EdgeClusters (lc dc))"
  by (simp add: syncEdgeClusters_step_def DeleteEdgeCluster_def
      split: runtime_Object.splits EventType.splits)

text \<open>
  Claim C2. On an \<open>Added\<close> or \<open>Modified\<close> edge-cluster event the loop emits at most one
  message. Given the mission list \<open>missionList\<close> that the lister returns, it emits none when
  the set of mission names reported by the cluster equals the set of names in the list,
  and otherwise exactly one: operation \<open>update\<close>, content the whole list, resource
  \<open><clusterName>/default/missionlist/\<close> (the path the builder gives for a named
  cluster).
\<close>

theorem syncEdgeClusters_reconcile_iff_sets_differ:
  assumes "Object e = EdgeClusterObject ec" and "Type e = Added \<or> Type e = Modified"
  shows "length (emitted dc (syncEdgeClusters_step e dc)) \<le> 1
       \<and> (\<forall>missionList. missionLister dc = Inr missionList \<longrightarrow>
            (length (emitted dc (syncEdgeClusters_step e dc)) = 1
               \<longleftrightarrow> set (ReceivedMissions ec) \<noteq> set (map Name missionList))
          \<and> (set (ReceivedMissions ec) = set (map Name missionList) \<longrightarrow>
               emitted dc (syncEdgeClusters_step e dc) = [])
          \<and> (set (ReceivedMissions ec) \<noteq> set (map Name missionList) \<longrightarrow>
               (\<exists>msg. emitted dc (syncEdgeClusters_step e dc) = [msg]
                  \<and> Router_Operation msg = ''update''
                  \<and> Content msg = MissionListContent missionList
                  \<and> (snd (BuildResource (Name ec) ''default'' ResourceTypeMissionList '''')
                       = None
                     \<longrightarrow> Router_Resource msg = Name ec @ ''/default/missionlist/''))))"
proof -
  let ?new = "case missionLister dc of
        Inl err \<Rightarrow> []
      | Inr missionList \<Rightarrow>
          if set (ReceivedMissions ec) = set (map Name missionList) then []
          else [\<lparr>Header_ParentID = '''', Header_ResourceVersion = '''',
                 Router_Source = ''edgecontroller'', Router_Group = ''resource'',
                 Router_Resource =
                   fst (BuildResource (Name ec) ''default'' ResourceTypeMissionList ''''),
                 Router_Operation = ''update'',
                 Content = MissionListContent missionList\<rparr>]"
  have em: "emitted dc (syncEdgeClusters_step e dc) = ?new"
    by (rule emitted_append)
      (simp only: syncEdgeClusters_step_reconcile [OF assms] syncEdgeClusters_reconcile_sent)
  have path: "fst (BuildResource (Name ec) ''default'' ResourceTypeMissionList '''')
                = Name ec @ ''/default/missionlist/''"
    if "snd (BuildResource (Name ec) ''default'' ResourceTypeMissionList '''') = None"
    using that by (simp add: BuildResource_def ResourceTypeMissionList_def split: if_splits)
  show ?thesis
    unfolding em using path by (auto split: sum.splits)
qed

theorem syncEdgeClusters_reconcile_iff_sets_differ_witness:
  "map (\<lambda>msg. (Router_Resource msg, Router_Operation msg, Content msg))
     (emitted scenario_dc
        (syncEdgeClusters_step
           \<lparr>Type = Modified,
            Object = EdgeClusterObject
                       \<lparr>Name = ''ec1'', Namespace = '''', ResourceVersion = ''31'',
                        ReceivedMissions = [''m1'', ''m2'']\<rparr>\<rparr>
           scenario_dc))
     = [(''ec1/default/missionlist/'', ''update'', MissionListContent scenario_missions)]
   \<and> emitted scenario_dc
       (syncEdgeClusters_step
          \<lparr>Type = Modified,
           Object = EdgeClusterObject
                      \<lparr>Name = ''ec2'', Namespace = '''', ResourceVersion = ''32'',
                       ReceivedMissions = [''m3'', ''m1'', ''m2'', ''m1'']\<rparr>\<rparr>
          scenario_dc) = []"
proof -
  let ?ec1 = "\<lparr>Name = ''ec1'', Namespace = '''', ResourceVersion = ''31'',
               ReceivedMissions = [''m1'', ''m2'']\<rparr>"
  let ?ec2 = "\<lparr>Name = ''ec2'', Namespace = '''', ResourceVersion = ''32'',
               ReceivedMissions = [''m3'', ''m1'', ''m2'', ''m1'']\<rparr>"
  let ?e1 = "\<lparr>Type = Modified, Object = EdgeClusterObject ?ec1\<rparr>"
  let ?e2 = "\<lparr>Type = Modified, Object = EdgeClusterObject ?ec2\<rparr>"
  let ?em1 = "emitted scenario_dc (syncEdgeClusters_step ?e1 scenario_dc)"
  have o1: "Object ?e1 = EdgeClusterObject ?ec1" and t1: "Type ?e1 = Added \<or> Type ?e1 = Modified"
    by simp_all
  have o2: "Object ?e2 = EdgeClusterObject ?ec2" and t2: "Type ?e2 = Added \<or> Type ?e2 = Modified"
    by simp_all
  have l: "missionLister scenario_dc = Inr scenario_missions" by simp
  have names: "map Name scenario_missions = [''m1'', ''m2'', ''m3'']"
    by (simp add: scenario_missions_def)
  have d1: "set (ReceivedMissions ?ec1) \<noteq> set (map Name scenario_missions)"
  proof
    assume eq: "set (ReceivedMissions ?ec1) = set (map Name scenario_missions)"
    have "''m3'' \<in> set (map Name scenario_missions)"
      by (simp add: names)
    then have "''m3'' \<in> set (ReceivedMissions ?ec1)"
      by (simp only: eq)
    then show False by simp
  qed
  have d2: "set (ReceivedMissions ?ec2) = set (map Name scenario_missions)"
    unfolding names by (simp add: insert_commute)
  have ok: "snd (BuildResource (Name ?ec1) ''default'' ResourceTypeMissionList '''') = None"
    by (simp add: BuildResource_def ResourceTypeMissionList_def)
  note w1 = syncEdgeClusters_reconcile_iff_sets_differ [OF o1 t1, of scenario_dc]
  note w2 = syncEdgeClusters_reconcile_iff_sets_differ [OF o2 t2, of scenario_dc]
  note w1a = w1 [THEN conjunct2, THEN spec, THEN mp, OF l]
  note w2a = w2 [THEN conjunct2, THEN spec, THEN mp, OF l]
  note w1b = w1a [THEN conjunct2, THEN conjunct2, THEN mp, OF d1]
  have b: "emitted scenario_dc (syncEdgeClusters_step ?e2 scenario_dc) = []"
    by (rule w2a [THEN conjunct2, THEN conjunct1, THEN mp, OF d2])
  from w1b obtain msg where m: "?em1 = [msg]
      \<and> Router_Operation msg = ''update''
      \<and> Content msg = MissionListContent scenario_missions
      \<and> (snd (BuildResource (Name ?ec1) ''default'' ResourceTypeMissionList '''') = None
           \<longrightarrow> Router_Resource msg = Name ?ec1 @ ''/default/missionlist/'')" ..
  note m1 = m [THEN conjunct1]
  note m2 = m [THEN conjunct2, THEN conjunct1]
  note m3 = m [THEN conjunct2, THEN conjunct2, THEN conjunct1]
  note m4 = m [THEN conjunct2, THEN conjunct2, THEN conjunct2, THEN mp, OF ok]
  have m5: "Router_Resource msg = ''ec1/default/missionlist/''"
    using m4 by simp
  have a: "map (\<lambda>msg. (Router_Resource msg, Router_Operation msg, Content msg)) ?em1
     = [(''ec1/default/missionlist/'', ''update'', MissionListContent scenario_missions)]"
    by (simp only: m1 m2 m3 m5 list.map)
  show ?thesis
    by (rule conjI) (rule a, rule b)
qed

subsection \<open>The rule and rule-endpoint loops\<close>

lemma syncRule_step_lc [simp]: "lc (syncRule_step e dc) = lc dc"
  by (simp add: syncRule_step_def Let_def
      split: runtime_Object.splits prod.splits option.splits EventType.splits)

lemma syncRuleEndpoint_step_lc [simp]: "lc (syncRuleEndpoint_step e dc) = lc dc"
  by (simp add: syncRuleEndpoint_step_def Let_def
      split: runtime_Object.splits prod.splits option.splits EventType.splits)

lemma syncRule_step_sent:
  "sent (syncRule_step e dc) = sent dc \<or>
   (\<exists>msg. sent (syncRule_step e dc) = sent dc @ [msg]
      \<and> Header_ResourceVersion msg = GetResourceVersion (Object e)
      \<and> (\<exists>rule. Content msg = RuleContent rule))"
  by (simp add: syncRule_step_def Let_def message_builders
      split: runtime_Object.splits prod.splits option.splits EventType.splits)

lemma syncRuleEndpoint_step_sent:
  "sent (syncRuleEndpoint_step e dc) = sent dc \<or>
   (\<exists>msg. sent (syncRuleEndpoint_step e dc) = sent dc @ [msg]
      \<and> Header_ResourceVersion msg = GetResourceVersion (Object e)
      \<and> (\<exists>ruleEndpoint. Content msg = RuleEndpointContent ruleEndpoint))"
  by (simp add: syncRuleEndpoint_step_def Let_def message_builders
      split: runtime_Object.splits prod.splits option.splits EventType.splits)

lemma syncPod_step_sent:
  "sent (syncPod_step e dc) = sent dc \<or>
   (\<exists>msg. sent (syncPod_step e dc) = sent dc @ [msg]
      \<and> Header_ResourceVersion msg = GetResourceVersion (Object e)
      \<and> (\<exists>pod. Content msg = PodContent pod))"
  by (simp add: syncPod_step_def Let_def message_builders
      split: runtime_Object.splits prod.splits option.splits EventType.splits)

lemma syncEdgeNodes_step_sent:
  "sent (syncEdgeNodes_step e dc) = sent dc \<or>
   (\<exists>msg. sent (syncEdgeNodes_step e dc) = sent dc @ [msg]
      \<and> Header_ResourceVersion msg = '''' \<and> Content msg = NoContent)"
  by (simp add: syncEdgeNodes_step_def syncEdgeNodes_delete_def Let_def message_builders
      split: runtime_Object.splits prod.splits option.splits EventType.splits)

lemma syncEdgeClusters_step_sent:
  "sent (syncEdgeClusters_step e dc) = sent dc \<or>
   (\<exists>msg. sent (syncEdgeClusters_step e dc) = sent dc @ [msg]
      \<and> Header_ResourceVersion msg = ''''
      \<and> (\<exists>missionList. Content msg = MissionListContent missionList))"
  by (simp add: syncEdgeClusters_step_def syncEdgeClusters_reconcile_def Let_def
      message_builders
      split: runtime_Object.splits prod.splits sum.splits EventType.splits)

text \<open>What the three fan-out loops add to the sink, as far as the header and the kind of
  content go.\<close>

lemma syncSecret_step_new:
  "\<exists>new. sent (syncSecret_step e dc) = sent dc @ new
     \<and> (\<forall>msg \<in> set new. Header_ResourceVersion msg = GetResourceVersion (Object e)
                        \<and> (\<exists>secret. Content msg = SecretContent secret))"
proof (cases "\<exists>s opr. Object e = SecretObject s \<and> syncSecret_operation (Type e) = Some opr")
  case True
  then obtain s opr where o: "Object e = SecretObject s"
    and t: "syncSecret_operation (Type e) = Some opr" by blast
  show ?thesis
    unfolding syncSecret_step_sent [OF o t] by (simp add: o)
next
  case False
  then have "(\<forall>s. Object e \<noteq> SecretObject s) \<or> syncSecret_operation (Type e) = None"
    by (cases "syncSecret_operation (Type e)") auto
  then have "sent (syncSecret_step e dc) = sent dc"
    by (rule syncSecret_step_sent_other)
  then show ?thesis by simp
qed

lemma syncConfigMap_step_new:
  "\<exists>new. sent (syncConfigMap_step e dc) = sent dc @ new
     \<and> (\<forall>msg \<in> set new. Header_ResourceVersion msg = GetResourceVersion (Object e)
                        \<and> (\<exists>cm. Content msg = ConfigMapContent cm))"
proof (cases "\<exists>cm opr. Object e = ConfigMapObject cm \<and> syncConfigMap_operation (Type e) = Some opr")
  case True
  then obtain cm opr where o: "Object e = ConfigMapObject cm"
    and t: "syncConfigMap_operation (Type e) = Some opr" by blast
  show ?thesis
    unfolding syncConfigMap_step_sent [OF o t] by (simp add: o)
next
  case False
  then have "(\<forall>cm. Object e \<noteq> ConfigMapObject cm) \<or> syncConfigMap_operation (Type e) = None"
    by (cases "syncConfigMap_operation (Type e)") auto
  then have "sent (syncConfigMap_step e dc) = sent dc"
    by (rule syncConfigMap_step_sent_other)
  then show ?thesis by simp
qed

lemma syncMissions_step_new:
  "\<exists>new. sent (snd (syncMissions_step e (opr0, dc))) = sent dc @ new
     \<and> (\<forall>msg \<in> set new.
           Header_ResourceVersion msg = GetResourceVersion (Object e)
         \<and> (\<exists>m c. Content msg = MissionContent m
                \<and> c \<in> fst ` set (EdgeClusters (lc dc))
                \<and> Router_Resource msg = c @ ''/default/mission/'' @ Name m))"
proof (cases "\<exists>m opr. Object e = MissionObject m \<and> syncMissions_operation (Type e) = Some opr")
  case True
  then obtain m opr where o: "Object e = MissionObject m"
    and t: "syncMissions_operation (Type e) = Some opr" by blast
  show ?thesis
    unfolding syncMissions_step_supported [OF o t] snd_conv Range_syncMissions_sent
    by (auto simp: o)
next
  case False
  then have "(\<forall>m. Object e \<noteq> MissionObject m) \<or> syncMissions_operation (Type e) = None"
    by (cases "syncMissions_operation (Type e)") auto
  then have "sent (snd (syncMissions_step e (opr0, dc))) = sent dc"
    by (rule syncMissions_step_other)
  then show ?thesis by simp
qed

lemma one_new:
  assumes "sent dc' = sent dc \<or> (\<exists>msg. sent dc' = sent dc @ [msg] \<and> P msg)"
  shows "\<exists>new. sent dc' = sent dc @ new \<and> (\<forall>msg \<in> set new. P msg)"
proof -
  from assms consider "sent dc' = sent dc" | msg where "sent dc' = sent dc @ [msg]" "P msg"
    by blast
  then show ?thesis
  proof cases
    case 1
    then have "sent dc' = sent dc @ [] \<and> (\<forall>msg \<in> set []. P msg)" by simp
    then show ?thesis ..
  next
    case 2
    then have "sent dc' = sent dc @ [msg] \<and> (\<forall>m \<in> set [msg]. P m)" by simp
    then show ?thesis ..
  qed
qed

lemma emitted_new:
  assumes "\<exists>new. sent dc' = sent dc @ new \<and> (\<forall>msg \<in> set new. P msg)"
    and "msg \<in> set (emitted dc dc')"
  shows "P msg"
proof -
  from assms(1) obtain new where n: "sent dc' = sent dc @ new" and p: "\<forall>msg \<in> set new. P msg"
    by blast
  from n have "emitted dc dc' = new" by (rule emitted_append)
  with assms(2) p show ?thesis by simp
qed

subsection \<open>Failure to build a resource identifier\<close>

lemma syncConfigMap_send_build_failure:
  assumes "snd (BuildResource n (Namespace cm) ResourceTypeConfigmap (Name cm)) = Some err"
  shows "syncConfigMap_send cm opr n dc =
           klog_Warningf ''build message resource failed with error: %s'' [err] dc"
  using assms
  by (cases "BuildResource n (Namespace cm) ResourceTypeConfigmap (Name cm)")
    (simp add: syncConfigMap_send_def)

lemma syncSecret_send_build_failure:
  assumes "snd (BuildResource n (Namespace s) ResourceTypeSecret (Name s)) = Some err"
  shows "syncSecret_send s opr n dc =
           klog_Warningf ''build message resource failed with error: %s'' [err] dc"
  using assms
  by (cases "BuildResource n (Namespace s) ResourceTypeSecret (Name s)")
    (simp add: syncSecret_send_def)

lemma syncEdgeNodes_delete_build_failure:
  assumes "snd (BuildResource (Name node) ''namespace'' ResourceNode (Name node)) = Some err"
  shows "syncEdgeNodes_delete node dc =
           klog_Warningf ''Built message resource failed with error: %s'' [err]
             (dc\<lparr>lc := DeleteNode (Name node) (lc dc)\<rparr>)"
  using assms
  by (cases "BuildResource (Name node) ''namespace'' ResourceNode (Name node)")
    (simp add: syncEdgeNodes_delete_def Let_def)

lemma syncMissions_visit_build_failure:
  assumes "snd (BuildResource c ''default'' ResourceTypeMission (Name m)) = Some err"
  shows "syncMissions_visit m opr c v dc =
           (True, klog_Warningf ''Built message resource failed with error: %v'' [err] dc)"
  using assms
  by (cases "BuildResource c ''default'' ResourceTypeMission (Name m)")
    (simp add: syncMissions_visit_def Let_def)

lemma syncRule_step_build_failure:
  assumes "Object e = RuleObject rule"
    and "snd (BuildResourceForRouter ResourceTypeRule (Name rule)) = Some err"
  shows "syncRule_step e dc =
           klog_Warningf ''built message resource failed with error: %s'' [err] dc"
  using assms
  by (cases "BuildResourceForRouter ResourceTypeRule (Name rule)")
    (simp add: syncRule_step_def)

lemma syncRuleEndpoint_step_build_failure:
  assumes "Object e = RuleEndpointObject ruleEndpoint"
    and "snd (BuildResourceForRouter ResourceTypeRuleEndpoint (Name ruleEndpoint)) = Some err"
  shows "syncRuleEndpoint_step e dc =
           klog_Warningf ''built message resource failed with error: %s'' [err] dc"
  using assms
  by (cases "BuildResourceForRouter ResourceTypeRuleEndpoint (Name ruleEndpoint)")
    (simp add: syncRuleEndpoint_step_def)

text \<open>
  Claim C6. In the pod, configmap, secret, node, rule, rule-endpoint and mission loops a
  failed build is logged and nothing is sent for it (the lemmas above). The edge-cluster
  loop is the exception: it assigns the error of \<^verbatim>\<open>BuildResource\<close> and never looks at
  it. For an edge cluster without a name, whose identifier cannot be built, and a mission
  list that differs from what the cluster reports, the message still goes to the sink,
  with an empty resource, and nothing is logged.
\<close>

theorem syncEdgeClusters_build_failure_still_sends:
  "snd (BuildResource '''' ''default'' ResourceTypeMissionList '''') = Some ''missing field''
   \<and> emitted scenario_dc
       (syncEdgeClusters_step
          \<lparr>Type = Modified,
           Object = EdgeClusterObject
                      \<lparr>Name = '''', Namespace = '''', ResourceVersion = ''33'',
                       ReceivedMissions = []\<rparr>\<rparr>
          scenario_dc)
     = [\<lparr>Header_ParentID = '''', Header_ResourceVersion = '''',
         Router_Source = ''edgecontroller'', Router_Group = ''resource'',
         Router_Resource = '''', Router_Operation = ''update'',
         Content = MissionListContent scenario_missions\<rparr>]
   \<and> klog (syncEdgeClusters_step
              \<lparr>Type = Modified,
               Object = EdgeClusterObject
                          \<lparr>Name = '''', Namespace = '''', ResourceVersion = ''33'',
                           ReceivedMissions = []\<rparr>\<rparr>
              scenario_dc) = []"
proof -
  let ?ec = "\<lparr>Name = '''', Namespace = '''', ResourceVersion = ''33'', ReceivedMissions = []\<rparr>"
  let ?e = "\<lparr>Type = Modified, Object = EdgeClusterObject ?ec\<rparr>"
  have o: "Object ?e = EdgeClusterObject ?ec" and t: "Type ?e = Added \<or> Type ?e = Modified"
    by simp_all
  note step = syncEdgeClusters_step_reconcile [OF o t, of scenario_dc]
  have fail: "BuildResource '''' ''default'' ResourceTypeMissionList '''' = ('''', Some ''missing field'')"
    by (simp add: BuildResource_def)
  have names: "map Name scenario_missions = [''m1'', ''m2'', ''m3'']"
    by (simp add: scenario_missions_def)
  have a: "snd (BuildResource '''' ''default'' ResourceTypeMissionList '''') = Some ''missing field''"
    by (simp add: fail)
  have b: "emitted scenario_dc (syncEdgeClusters_step ?e scenario_dc)
     = [\<lparr>Header_ParentID = '''', Header_ResourceVersion = '''',
         Router_Source = ''edgecontroller'', Router_Group = ''resource'',
         Router_Resource = '''', Router_Operation = ''update'',
         Content = MissionListContent scenario_missions\<rparr>]"
    by (rule emitted_append)
      (simp add: step syncEdgeClusters_reconcile_sent fail names)
  have c: "klog (syncEdgeClusters_step ?e scenario_dc) = []"
    by (simp add: step syncEdgeClusters_reconcile_klog)
  show ?thesis
    by (intro conjI) (rule a, rule b, rule c)
qed

subsection \<open>The resource version in the header\<close>

text \<open>
  Claim C8, as stated, fails: the envelope of a node deletion is built by
  \<^verbatim>\<open>NewMessage\<close> and \<^verbatim>\<open>BuildRouter\<close> alone. Deleting node \<open>n1\<close>, whose resource version
  is \<open>11\<close>, emits one envelope, and its header carries the empty resource version.
\<close>

theorem syncEdgeNodes_envelope_lacks_resource_version:
  "emitted scenario_dc
     (syncEdgeNodes_step
        \<lparr>Type = Deleted,
         Object = NodeObject \<lparr>Name = ''n1'', Namespace = '''', ResourceVersion = ''11'',
                              Conditions = []\<rparr>\<rparr>
        scenario_dc) \<noteq> []
   \<and> Header_ResourceVersion
       (hd (emitted scenario_dc
              (syncEdgeNodes_step
                 \<lparr>Type = Deleted,
                  Object = NodeObject \<lparr>Name = ''n1'', Namespace = '''', ResourceVersion = ''11'',
                                       Conditions = []\<rparr>\<rparr>
                 scenario_dc)))
     \<noteq> GetResourceVersion
         (NodeObject \<lparr>Name = ''n1'', Namespace = '''', ResourceVersion = ''11'',
                      Conditions = []\<rparr>)"
proof -
  let ?n = "\<lparr>Name = ''n1'', Namespace = '''', ResourceVersion = ''11'', Conditions = []\<rparr>"
  let ?e = "\<lparr>Type = Deleted, Object = NodeObject ?n\<rparr>"
  have o: "Object ?e = NodeObject ?n" and t: "Type ?e = Deleted" by simp_all
  have "emitted scenario_dc (syncEdgeNodes_step ?e scenario_dc)
     = [\<lparr>Header_ParentID = '''', Header_ResourceVersion = '''',
         Router_Source = ''edgecontroller'', Router_Group = ''resource'',
         Router_Resource = ''n1/namespace/node/n1'', Router_Operation = ''delete'',
         Content = NoContent\<rparr>]"
    by (rule emitted_append)
      (simp add: syncEdgeNodes_step_Deleted [OF o t] syncEdgeNodes_delete_sent)
  then show ?thesis by simp
qed

text \<open>
  Claim C8, amended. Every envelope emitted by the pod, configmap, secret, rule,
  rule-endpoint and mission loops carries the resource version of the event's object.
  The envelopes of the node loop (node deletion) and of the edge-cluster loop (mission
  reconcile) are assembled without one: their header has the empty resource version.
\<close>

theorem envelope_resource_version_by_loop:
  assumes "msg \<in> set (emitted dc (snd (Start_step qe (opr, dc))))"
  shows "Header_ResourceVersion msg =
     (case qe of
        FromPodManager e \<Rightarrow> GetResourceVersion (Object e)
      | FromConfigmapManager e \<Rightarrow> GetResourceVersion (Object e)
      | FromSecretManager e \<Rightarrow> GetResourceVersion (Object e)
      | FromRulesManager e \<Rightarrow> GetResourceVersion (Object e)
      | FromRuleEndpointsManager e \<Rightarrow> GetResourceVersion (Object e)
      | FromMissionsManager e \<Rightarrow> GetResourceVersion (Object e)
      | FromNodeManager e \<Rightarrow> ''''
      | FromEdgeClusterManager e \<Rightarrow> ''''
      | ListerRefresh l \<Rightarrow> '''')"
proof (cases qe)
  case (FromPodManager e)
  with assms have "msg \<in> set (emitted dc (syncPod_step e dc))" by simp
  from emitted_new [OF one_new [OF syncPod_step_sent] this]
  show ?thesis by (simp add: FromPodManager)
next
  case (FromConfigmapManager e)
  with assms have "msg \<in> set (emitted dc (syncConfigMap_step e dc))" by simp
  from emitted_new [OF syncConfigMap_step_new this]
  show ?thesis by (simp add: FromConfigmapManager)
next
  case (FromSecretManager e)
  with assms have "msg \<in> set (emitted dc (syncSecret_step e dc))" by simp
  from emitted_new [OF syncSecret_step_new this]
  show ?thesis by (simp add: FromSecretManager)
next
  case (FromNodeManager e)
  with assms have "msg \<in> set (emitted dc (syncEdgeNodes_step e dc))" by simp
  from emitted_new [OF one_new [OF syncEdgeNodes_step_sent] this]
  show ?thesis by (simp add: FromNodeManager)
next
  case (FromRulesManager e)
  with assms have "msg \<in> set (emitted dc (syncRule_step e dc))" by simp
  from emitted_new [OF one_new [OF syncRule_step_sent] this]
  show ?thesis by (simp add: FromRulesManager)
next
  case (FromRuleEndpointsManager e)
  with assms have "msg \<in> set (emitted dc (syncRuleEndpoint_step e dc))" by simp
  from emitted_new [OF one_new [OF syncRuleEndpoint_step_sent] this]
  show ?thesis by (simp add: FromRuleEndpointsManager)
next
  case (FromMissionsManager e)
  with assms have "msg \<in> set (emitted dc (snd (syncMissions_step e (opr, dc))))" by simp
  from emitted_new [OF syncMissions_step_new this]
  show ?thesis by (simp add: FromMissionsManager)
next
  case (FromEdgeClusterManager e)
  with assms have "msg \<in> set (emitted dc (syncEdgeClusters_step e dc))" by simp
  from emitted_new [OF one_new [OF syncEdgeClusters_step_sent] this]
  show ?thesis by (simp add: FromEdgeClusterManager)
next
  case (ListerRefresh l)
  with assms show ?thesis by (simp add: emitted_def)
qed

theorem envelope_resource_version_by_loop_witness:
  "map Header_ResourceVersion
     (emitted scenario_dc
        (snd (Start_step
                (FromMissionsManager
                   \<lparr>Type = Added,
                    Object = MissionObject
                               \<lparr>Name = ''m1'', Namespace = ''default'',
                                ResourceVersion = ''41''\<rparr>\<rparr>)
                ('''', scenario_dc))))
   = [''41'', ''41'']"
proof -
  let ?m = "\<lparr>Name = ''m1'', Namespace = ''default'', ResourceVersion = ''41''\<rparr>"
  let ?e = "\<lparr>Type = Added, Object = MissionObject ?m\<rparr>"
  let ?em = "emitted scenario_dc (snd (Start_step (FromMissionsManager ?e) ('''', scenario_dc)))"
  have o: "Object ?e = MissionObject ?m"
    and t: "syncMissions_operation (Type ?e) = Some InsertOperation" by simp_all
  have "sent (snd (Start_step (FromMissionsManager ?e) ('''', scenario_dc))) =
          sent (Range (EdgeClusters (lc scenario_dc)) (syncMissions_visit ?m InsertOperation)
                  scenario_dc)"
    by (simp only: Start_step.simps syncMissions_step_supported [OF o t] snd_conv)
  then have "length ?em = 2"
    unfolding emitted_def Range_syncMissions_sent
    by (simp add: scenario_EdgeClusters BuildResource_def ResourceTypeMission_def)
  then obtain m1 m2 where em: "?em = [m1, m2]"
    by (cases ?em; cases "tl ?em") auto
  have rv: "Header_ResourceVersion msg = ''41''" if "msg \<in> set ?em" for msg
    using envelope_resource_version_by_loop [OF that] by simp
  have in1: "m1 \<in> set ?em" and in2: "m2 \<in> set ?em"
    unfolding em by simp_all
  have "map Header_ResourceVersion [m1, m2] = [''41'', ''41'']"
    using rv [OF in1] rv [OF in2] by simp
  then show ?thesis
    unfolding em .
qed

subsection \<open>Membership of EdgeClusters\<close>

lemma initLocating_nodes_EdgeClusters [simp]:
  "EdgeClusters (initLocating_nodes nodes status c) = EdgeClusters c"
  by (induction nodes arbitrary: status c) (simp_all add: Let_def UpdateEdgeNode_def)

lemma initLocating_pods_EdgeClusters [simp]:
  "EdgeClusters (initLocating_pods pods c) = EdgeClusters c"
  unfolding initLocating_pods_def by (induction pods arbitrary: c) simp_all

lemma initLocating_edgeclusters_keys:
  "fst ` set (EdgeClusters (initLocating_edgeclusters ecs c)) =
     fst ` set (EdgeClusters c) \<union> Name ` set ecs"
  unfolding initLocating_edgeclusters_def
  by (induction ecs arbitrary: c) (auto simp: UpdateEdgeCluster_def dom_update)

lemma initLocating_edgeclusters_distinct:
  "distinct (map fst (EdgeClusters c)) \<Longrightarrow>
   distinct (map fst (EdgeClusters (initLocating_edgeclusters ecs c)))"
  unfolding initLocating_edgeclusters_def
  by (induction ecs arbitrary: c) (simp_all add: UpdateEdgeCluster_def distinct_update)

lemma initLocating_EdgeClusters:
  assumes "initLocating nodes pods (Inr ecs) c0 = (None, c1)"
  shows "fst ` set (EdgeClusters c1) = fst ` set (EdgeClusters c0) \<union> Name ` set ecs"
proof -
  from assms obtain nodeItems podItems where
    "c1 = initLocating_edgeclusters ecs
            (initLocating_pods podItems (initLocating_nodes nodeItems [] c0))"
    by (cases nodes; cases pods) (auto simp: initLocating_def Let_def)
  then show ?thesis
    by (simp add: initLocating_edgeclusters_keys)
qed

lemma Start_step_EdgeClusters:
  "fst ` set (EdgeClusters (lc (snd (Start_step qe (opr, dc))))) \<subseteq>
     fst ` set (EdgeClusters (lc dc))"
proof (cases qe)
  case (FromEdgeClusterManager e)
  show ?thesis
    using dom_delete_subset [of _ "EdgeClusters (lc dc)"]
    by (simp add: FromEdgeClusterManager syncEdgeClusters_step_EdgeClusters
        split: runtime_Object.splits)
qed simp_all

lemma Start_step_distinct:
  "distinct (map fst (EdgeClusters (lc dc))) \<Longrightarrow>
   distinct (map fst (EdgeClusters (lc (snd (Start_step qe (opr, dc))))))"
  by (cases qe)
    (simp_all add: syncEdgeClusters_step_EdgeClusters distinct_delete
      split: runtime_Object.splits)

text \<open>The keys of \<open>EdgeClusters\<close> are distinct when the controller is created and stay
  so along every run: the association list is a map.\<close>

lemma NewDownstreamController_distinct:
  assumes "NewDownstreamController nodes pods ecs lister = Inr dc"
  shows "distinct (map fst (EdgeClusters (lc dc)))"
proof -
  have d: "distinct (map fst (EdgeClusters (snd (initLocating nodes pods ecs empty_LocationCache))))"
    by (cases nodes; cases pods; cases ecs)
      (simp_all add: initLocating_def Let_def initLocating_edgeclusters_distinct
        empty_LocationCache_def)
  from assms have "lc dc = snd (initLocating nodes pods ecs empty_LocationCache)"
    by (auto simp: NewDownstreamController_def split: prod.splits option.splits)
  with d show ?thesis by simp
qed

lemma Start_run_distinct:
  "distinct (map fst (EdgeClusters (lc dc))) \<Longrightarrow>
   distinct (map fst (EdgeClusters (lc (Start_run events dc))))"
proof -
  have "distinct (map fst (EdgeClusters (lc (snd st)))) \<Longrightarrow>
        distinct (map fst (EdgeClusters (lc (snd (fold Start_step events st)))))" for st
  proof (induction events arbitrary: st)
    case Nil
    then show ?case by simp
  next
    case (Cons qe events)
    obtain opr dc' where st: "st = (opr, dc')" by (cases st)
    from Cons.prems have "distinct (map fst (EdgeClusters (lc dc')))"
      by (simp add: st)
    then have "distinct (map fst (EdgeClusters (lc (snd (Start_step qe (opr, dc'))))))"
      by (rule Start_step_distinct)
    then have "distinct (map fst (EdgeClusters (lc (snd (fold Start_step events
                 (Start_step qe (opr, dc')))))))"
      by (rule Cons.IH)
    then show ?case by (simp add: st)
  qed
  from this [of "('''', dc)"] show "distinct (map fst (EdgeClusters (lc dc))) \<Longrightarrow>
      distinct (map fst (EdgeClusters (lc (Start_run events dc))))"
    by (simp add: Start_run_def)
qed

lemma not_mission_message_for:
  "\<forall>m. Content msg \<noteq> MissionContent m \<Longrightarrow> \<not> mission_message_for cluster msg"
  by (cases "Content msg") (simp_all add: mission_message_for_def)

lemma Start_step_new:
  assumes "cluster \<notin> fst ` set (EdgeClusters (lc dc))"
  shows "\<exists>new. sent (snd (Start_step qe (opr, dc))) = sent dc @ new
           \<and> (\<forall>msg \<in> set new. \<not> mission_message_for cluster msg)"
proof (cases qe)
  case (FromPodManager e)
  from one_new [OF syncPod_step_sent [of e dc]]
  obtain new where "sent (syncPod_step e dc) = sent dc @ new"
    and "\<forall>msg \<in> set new. Header_ResourceVersion msg = GetResourceVersion (Object e)
           \<and> (\<exists>pod. Content msg = PodContent pod)"
    by blast
  then have "sent (syncPod_step e dc) = sent dc @ new
      \<and> (\<forall>msg \<in> set new. \<not> mission_message_for cluster msg)"
    by (auto intro!: not_mission_message_for)
  then show ?thesis unfolding FromPodManager Start_step.simps snd_conv ..
next
  case (FromConfigmapManager e)
  from syncConfigMap_step_new [of e dc]
  obtain new where "sent (syncConfigMap_step e dc) = sent dc @ new"
    and "\<forall>msg \<in> set new. Header_ResourceVersion msg = GetResourceVersion (Object e)
           \<and> (\<exists>cm. Content msg = ConfigMapContent cm)"
    by blast
  then have "sent (syncConfigMap_step e dc) = sent dc @ new
      \<and> (\<forall>msg \<in> set new. \<not> mission_message_for cluster msg)"
    by (auto intro!: not_mission_message_for)
  then show ?thesis unfolding FromConfigmapManager Start_step.simps snd_conv ..
next
  case (FromSecretManager e)
  from syncSecret_step_new [of e dc]
  obtain new where "sent (syncSecret_step e dc) = sent dc @ new"
    and "\<forall>msg \<in> set new. Header_ResourceVersion msg = GetResourceVersion (Object e)
           \<and> (\<exists>secret. Content msg = SecretContent secret)"
    by blast
  then have "sent (syncSecret_step e dc) = sent dc @ new
      \<and> (\<forall>msg \<in> set new. \<not> mission_message_for cluster msg)"
    by (auto intro!: not_mission_message_for)
  then show ?thesis unfolding FromSecretManager Start_step.simps snd_conv ..
next
  case (FromNodeManager e)
  from one_new [OF syncEdgeNodes_step_sent [of e dc]]
  obtain new where "sent (syncEdgeNodes_step e dc) = sent dc @ new"
    and "\<forall>msg \<in> set new. Header_ResourceVersion msg = '''' \<and> Content msg = NoContent"
    by blast
  then have "sent (syncEdgeNodes_step e dc) = sent dc @ new
      \<and> (\<forall>msg \<in> set new. \<not> mission_message_for cluster msg)"
    by (auto intro!: not_mission_message_for)
  then show ?thesis unfolding FromNodeManager Start_step.simps snd_conv ..
next
  case (FromRulesManager e)
  from one_new [OF syncRule_step_sent [of e dc]]
  obtain new where "sent (syncRule_step e dc) = sent dc @ new"
    and "\<forall>msg \<in> set new. Header_ResourceVersion msg = GetResourceVersion (Object e)
           \<and> (\<exists>rule. Content msg = RuleContent rule)"
    by blast
  then have "sent (syncRule_step e dc) = sent dc @ new
      \<and> (\<forall>msg \<in> set new. \<not> mission_message_for cluster msg)"
    by (auto intro!: not_mission_message_for)
  then show ?thesis unfolding FromRulesManager Start_step.simps snd_conv ..
next
  case (FromRuleEndpointsManager e)
  from one_new [OF syncRuleEndpoint_step_sent [of e dc]]
  obtain new where "sent (syncRuleEndpoint_step e dc) = sent dc @ new"
    and "\<forall>msg \<in> set new. Header_ResourceVersion msg = GetResourceVersion (Object e)
           \<and> (\<exists>ruleEndpoint. Content msg = RuleEndpointContent ruleEndpoint)"
    by blast
  then have "sent (syncRuleEndpoint_step e dc) = sent dc @ new
      \<and> (\<forall>msg \<in> set new. \<not> mission_message_for cluster msg)"
    by (auto intro!: not_mission_message_for)
  then show ?thesis unfolding FromRuleEndpointsManager Start_step.simps snd_conv ..
next
  case (FromMissionsManager e)
  from syncMissions_step_new [of e opr dc]
  obtain new where n: "sent (snd (syncMissions_step e (opr, dc))) = sent dc @ new"
    and p: "\<forall>msg \<in> set new.
           Header_ResourceVersion msg = GetResourceVersion (Object e)
         \<and> (\<exists>m c. Content msg = MissionContent m
                \<and> c \<in> fst ` set (EdgeClusters (lc dc))
                \<and> Router_Resource msg = c @ ''/default/mission/'' @ Name m)"
    by blast
  have "\<not> mission_message_for cluster msg" if "msg \<in> set new" for msg
  proof -
    from p that obtain m c where c: "Content msg = MissionContent m"
      and k: "c \<in> fst ` set (EdgeClusters (lc dc))"
      and r: "Router_Resource msg = c @ ''/default/mission/'' @ Name m"
      by blast
    from k assms have "c \<noteq> cluster" by blast
    then show ?thesis
      by (simp add: mission_message_for_def c r)
  qed
  with n have "sent (snd (syncMissions_step e (opr, dc))) = sent dc @ new
      \<and> (\<forall>msg \<in> set new. \<not> mission_message_for cluster msg)"
    by blast
  then show ?thesis unfolding FromMissionsManager Start_step.simps ..
next
  case (FromEdgeClusterManager e)
  from one_new [OF syncEdgeClusters_step_sent [of e dc]]
  obtain new where "sent (syncEdgeClusters_step e dc) = sent dc @ new"
    and "\<forall>msg \<in> set new. Header_ResourceVersion msg = ''''
           \<and> (\<exists>missionList. Content msg = MissionListContent missionList)"
    by blast
  then have "sent (syncEdgeClusters_step e dc) = sent dc @ new
      \<and> (\<forall>msg \<in> set new. \<not> mission_message_for cluster msg)"
    by (auto intro!: not_mission_message_for)
  then show ?thesis unfolding FromEdgeClusterManager Start_step.simps snd_conv ..
next
  case (ListerRefresh l)
  have "sent (dc\<lparr>missionLister := l\<rparr>) = sent dc @ []
      \<and> (\<forall>msg \<in> set []. \<not> mission_message_for cluster msg)"
    by simp
  then show ?thesis unfolding ListerRefresh Start_step.simps snd_conv ..
qed

lemma Start_fold_invariant:
  assumes "cluster \<notin> fst ` set (EdgeClusters (lc (snd st)))"
  shows "fst ` set (EdgeClusters (lc (snd (fold Start_step events st)))) \<subseteq>
           fst ` set (EdgeClusters (lc (snd st)))
       \<and> (\<exists>new. sent (snd (fold Start_step events st)) = sent (snd st) @ new
             \<and> (\<forall>msg \<in> set new. \<not> mission_message_for cluster msg))"
  using assms
proof (induction events arbitrary: st)
  case Nil
  show ?case by simp
next
  case (Cons qe events)
  obtain opr dc where st: "st = (opr, dc)" by (cases st)
  let ?st' = "Start_step qe (opr, dc)"
  have sub: "fst ` set (EdgeClusters (lc (snd ?st'))) \<subseteq> fst ` set (EdgeClusters (lc dc))"
    by (rule Start_step_EdgeClusters)
  from Cons.prems have out: "cluster \<notin> fst ` set (EdgeClusters (lc dc))"
    by (simp add: st)
  with sub have out': "cluster \<notin> fst ` set (EdgeClusters (lc (snd ?st')))"
    by blast
  from Start_step_new [OF out, of qe opr]
  obtain new1 where n1: "sent (snd ?st') = sent dc @ new1"
    and p1: "\<forall>msg \<in> set new1. \<not> mission_message_for cluster msg"
    by blast
  from Cons.IH [OF out']
  obtain new2 where s2: "fst ` set (EdgeClusters (lc (snd (fold Start_step events ?st')))) \<subseteq>
           fst ` set (EdgeClusters (lc (snd ?st')))"
    and n2: "sent (snd (fold Start_step events ?st')) = sent (snd ?st') @ new2"
    and p2: "\<forall>msg \<in> set new2. \<not> mission_message_for cluster msg"
    by blast
  have "sent (snd (fold Start_step events ?st')) = sent dc @ (new1 @ new2)
      \<and> (\<forall>msg \<in> set (new1 @ new2). \<not> mission_message_for cluster msg)"
    using n1 n2 p1 p2 by auto
  then have "\<exists>new. sent (snd (fold Start_step events ?st')) = sent dc @ new
      \<and> (\<forall>msg \<in> set new. \<not> mission_message_for cluster msg)" ..
  moreover have "fst ` set (EdgeClusters (lc (snd (fold Start_step events ?st')))) \<subseteq>
      fst ` set (EdgeClusters (lc dc))"
    using s2 sub by blast
  ultimately show ?case
    by (simp add: st)
qed

lemma Start_fold_EdgeClusters:
  "fst ` set (EdgeClusters (lc (snd (fold Start_step events st)))) \<subseteq>
     fst ` set (EdgeClusters (lc (snd st)))"
proof (induction events arbitrary: st)
  case Nil
  show ?case by simp
next
  case (Cons qe events)
  obtain opr dc where st: "st = (opr, dc)" by (cases st)
  show ?case
    using Cons.IH [of "Start_step qe (opr, dc)"] Start_step_EdgeClusters [of qe opr dc]
    by (simp add: st)
qed

text \<open>
  Claim C9. The edge-cluster loop never inserts into \<open>EdgeClusters\<close>: an \<open>Added\<close> or
  \<open>Modified\<close> event leaves the whole cache as it is and a \<open>Deleted\<close> event removes the
  entry. No other loop inserts either, so along any run of the started controller the
  set of registered cluster names only shrinks; the names are put there by
  \<^verbatim>\<open>initLocating\<close>, which registers every listed edge cluster. Hence a cluster that is
  not registered when the controller starts gets no mission message during the run,
  whatever events arrive, its own \<open>Added\<close> event included.
\<close>

theorem EdgeClusters_only_filled_by_initLocating:
  "(Object e = EdgeClusterObject ec \<longrightarrow>
      (Type e = Added \<or> Type e = Modified \<longrightarrow> lc (syncEdgeClusters_step e dc) = lc dc)
    \<and> (Type e = Deleted \<longrightarrow>
         lc (syncEdgeClusters_step e dc) = DeleteEdgeCluster (Name ec) (lc dc)))
   \<and> fst ` set (EdgeClusters (lc (Start_run events dc))) \<subseteq> fst ` set (EdgeClusters (lc dc))
   \<and> (initLocating nodes pods (Inr ecs) c0 = (None, c1) \<longrightarrow>
        fst ` set (EdgeClusters c1) = fst ` set (EdgeClusters c0) \<union> Name ` set ecs)
   \<and> (cluster \<notin> fst ` set (EdgeClusters (lc dc)) \<longrightarrow>
        (\<forall>msg \<in> set (emitted dc (Start_run events dc)). \<not> mission_message_for cluster msg))"
proof (intro conjI impI)
  assume "Object e = EdgeClusterObject ec" and "Type e = Added \<or> Type e = Modified"
  then show "lc (syncEdgeClusters_step e dc) = lc dc"
    by (simp add: syncEdgeClusters_step_reconcile)
next
  assume "Object e = EdgeClusterObject ec" and "Type e = Deleted"
  then show "lc (syncEdgeClusters_step e dc) = DeleteEdgeCluster (Name ec) (lc dc)"
    by (simp add: syncEdgeClusters_step_def)
next
  show "fst ` set (EdgeClusters (lc (Start_run events dc))) \<subseteq> fst ` set (EdgeClusters (lc dc))"
    using Start_fold_EdgeClusters [of events "('''', dc)"] by (simp add: Start_run_def)
next
  assume "initLocating nodes pods (Inr ecs) c0 = (None, c1)"
  then show "fst ` set (EdgeClusters c1) = fst ` set (EdgeClusters c0) \<union> Name ` set ecs"
    by (rule initLocating_EdgeClusters)
next
  assume out: "cluster \<notin> fst ` set (EdgeClusters (lc dc))"
  then have "cluster \<notin> fst ` set (EdgeClusters (lc (snd ('''', dc))))" by simp
  from Start_fold_invariant [OF this, of events]
  obtain new where n: "sent (Start_run events dc) = sent dc @ new"
    and p: "\<forall>msg \<in> set new. \<not> mission_message_for cluster msg"
    unfolding Start_run_def snd_conv by blast
  from n have "emitted dc (Start_run events dc) = new" by (rule emitted_append)
  with p show "\<forall>msg \<in> set (emitted dc (Start_run events dc)). \<not> mission_message_for cluster msg"
    by simp
qed

theorem EdgeClusters_only_filled_by_initLocating_witness:
  "''ec3'' \<notin> fst ` set (EdgeClusters (lc scenario_dc))
   \<and> filter (mission_message_for ''ec3'')
       (emitted scenario_dc
          (Start_run
             [FromEdgeClusterManager
                \<lparr>Type = Added,
                 Object = EdgeClusterObject
                            \<lparr>Name = ''ec3'', Namespace = '''',
                             ResourceVersion = ''34'', ReceivedMissions = []\<rparr>\<rparr>,
              FromMissionsManager
                \<lparr>Type = Added,
                 Object = MissionObject
                            \<lparr>Name = ''m4'', Namespace = ''default'',
                             ResourceVersion = ''44''\<rparr>\<rparr>]
             scenario_dc)) = []
   \<and> map Router_Resource
       (emitted scenario_dc
          (Start_run
             [FromEdgeClusterManager
                \<lparr>Type = Added,
                 Object = EdgeClusterObject
                            \<lparr>Name = ''ec3'', Namespace = '''',
                             ResourceVersion = ''34'', ReceivedMissions = []\<rparr>\<rparr>,
              FromMissionsManager
                \<lparr>Type = Added,
                 Object = MissionObject
                            \<lparr>Name = ''m4'', Namespace = ''default'',
                             ResourceVersion = ''44''\<rparr>\<rparr>]
             scenario_dc))
     = [''ec3/default/missionlist/'', ''ec1/default/mission/m4'', ''ec2/default/mission/m4'']"
proof -
  let ?ec = "\<lparr>Name = ''ec3'', Namespace = '''', ResourceVersion = ''34'', ReceivedMissions = []\<rparr>"
  let ?m = "\<lparr>Name = ''m4'', Namespace = ''default'', ResourceVersion = ''44''\<rparr>"
  let ?e1 = "\<lparr>Type = Added, Object = EdgeClusterObject ?ec\<rparr>"
  let ?e2 = "\<lparr>Type = Added, Object = MissionObject ?m\<rparr>"
  let ?run = "Start_run [FromEdgeClusterManager ?e1, FromMissionsManager ?e2] scenario_dc"
  have out: "''ec3'' \<notin> fst ` set (EdgeClusters (lc scenario_dc))"
    by (simp add: scenario_EdgeClusters)
  have none: "\<forall>msg \<in> set (emitted scenario_dc ?run). \<not> mission_message_for ''ec3'' msg"
    using EdgeClusters_only_filled_by_initLocating
      [of ?e1 ?ec scenario_dc "[FromEdgeClusterManager ?e1, FromMissionsManager ?e2]"
         "Inr []" "Inr []" "[]" empty_LocationCache empty_LocationCache "''ec3''",
       THEN conjunct2, THEN conjunct2, THEN conjunct2, THEN mp, OF out] .
  have o1: "Object ?e1 = EdgeClusterObject ?ec" and t1: "Type ?e1 = Added \<or> Type ?e1 = Modified"
    by simp_all
  have o2: "Object ?e2 = MissionObject ?m"
    and t2: "syncMissions_operation (Type ?e2) = Some InsertOperation" by simp_all
  let ?dc1 = "syncEdgeClusters_step ?e1 scenario_dc"
  have names: "map Name scenario_missions = [''m1'', ''m2'', ''m3'']"
    by (simp add: scenario_missions_def)
  have s1: "sent ?dc1 =
      [\<lparr>Header_ParentID = '''', Header_ResourceVersion = '''',
         Router_Source = ''edgecontroller'', Router_Group = ''resource'',
         Router_Resource = ''ec3/default/missionlist/'', Router_Operation = ''update'',
         Content = MissionListContent scenario_missions\<rparr>]"
    by (simp add: syncEdgeClusters_step_reconcile [OF o1 t1] syncEdgeClusters_reconcile_sent
        names BuildResource_def ResourceTypeMissionList_def)
  have l1: "lc ?dc1 = scenario_cache"
    by (simp add: syncEdgeClusters_step_reconcile [OF o1 t1])
  have run: "?run = Range (EdgeClusters (lc ?dc1)) (syncMissions_visit ?m InsertOperation) ?dc1"
    by (simp only: Start_run_def fold_simps Start_step.simps
        syncMissions_step_supported [OF o2 t2] snd_conv)
  have "map Router_Resource (emitted scenario_dc ?run)
     = [''ec3/default/missionlist/'', ''ec1/default/mission/m4'', ''ec2/default/mission/m4'']"
    unfolding run emitted_def Range_syncMissions_sent s1 l1
    by (simp add: scenario_EdgeClusters BuildResource_def ResourceTypeMission_def)
  moreover have "filter (mission_message_for ''ec3'') (emitted scenario_dc ?run) = []"
    using none by (simp add: filter_empty_conv)
  ultimately show ?thesis
    using out by (intro conjI)
qed

subsection \<open>The status variable of initLocating\<close>

lemma initLocating_conditions_no_Ready:
  "\<forall>nsc \<in> set conds. cond_Type nsc \<noteq> ''Ready'' \<Longrightarrow>
   initLocating_conditions conds status = status"
  by (induction conds) simp_all

lemma initLocating_conditions_find:
  "find (\<lambda>nsc. cond_Type nsc = ''Ready'') conds = Some nsc \<Longrightarrow>
   initLocating_conditions conds status = cond_Status nsc"
  by (induction conds) (simp_all split: if_splits)

lemma initLocating_nodes_append:
  "initLocating_nodes (xs @ ys) status c =
     initLocating_nodes ys
       (fold (\<lambda>node s. initLocating_conditions (Conditions node) s) xs status)
       (initLocating_nodes xs status c)"
  by (induction xs arbitrary: status c) (simp_all add: Let_def)

lemma initLocating_nodes_other:
  "k \<notin> Name ` set nodes \<Longrightarrow>
   EdgeNodes (initLocating_nodes nodes status c) k = EdgeNodes c k"
  by (induction nodes arbitrary: status c) (simp_all add: Let_def UpdateEdgeNode_def)

lemma initLocating_nodes_last:
  "EdgeNodes (initLocating_nodes (xs @ [p]) status c) (Name p) =
     Some (fold (\<lambda>node s. initLocating_conditions (Conditions node) s) (xs @ [p]) status)"
  by (simp add: initLocating_nodes_append Let_def UpdateEdgeNode_def)

lemma EdgeNodes_AddOrUpdatePod [simp]: "EdgeNodes (AddOrUpdatePod pod c) = EdgeNodes c"
  by (simp add: AddOrUpdatePod_def Let_def)

lemma initLocating_pods_EdgeNodes [simp]:
  "EdgeNodes (initLocating_pods pods c) = EdgeNodes c"
  unfolding initLocating_pods_def by (induction pods arbitrary: c) simp_all

lemma initLocating_edgeclusters_EdgeNodes [simp]:
  "EdgeNodes (initLocating_edgeclusters ecs c) = EdgeNodes c"
  unfolding initLocating_edgeclusters_def
  by (induction ecs arbitrary: c) (simp_all add: UpdateEdgeCluster_def)

lemma initLocating_EdgeNodes:
  "EdgeNodes (snd (initLocating (Inr nodes) pods ecs c)) =
     EdgeNodes (initLocating_nodes nodes '''' c)"
  by (cases pods; cases ecs) (simp_all add: initLocating_def Let_def)

text \<open>
  Claim C10. \<^verbatim>\<open>status\<close> is declared once, before the loop over the nodes. A labelled
  node without a \<open>Ready\<close> condition is therefore neither skipped nor given a value of
  its own: it is recorded in \<open>EdgeNodes\<close> with what the variable still holds, which is
  the empty string if it is the first node and otherwise exactly the status under which
  the node iterated just before it was recorded, the \<open>Ready\<close> status of that node when
  it has one. (The node's name is assumed not to come again later in the list, where it
  would be overwritten.)
\<close>

theorem initLocating_status_carried_to_node_without_Ready:
  assumes "\<forall>nsc \<in> set (Conditions node). cond_Type nsc \<noteq> ''Ready''"
    and "Name node \<notin> Name ` set rest"
  shows "EdgeNodes (snd (initLocating (Inr (node # rest)) pods ecs c)) (Name node) = Some ''''
       \<and> EdgeNodes (snd (initLocating (Inr (before @ prev # node # rest)) pods ecs c))
           (Name node)
         = EdgeNodes (initLocating_nodes (before @ [prev]) '''' c) (Name prev)
       \<and> (\<forall>ready. find (\<lambda>nsc. cond_Type nsc = ''Ready'') (Conditions prev) = Some ready \<longrightarrow>
            EdgeNodes (snd (initLocating (Inr (before @ prev # node # rest)) pods ecs c))
              (Name node)
            = Some (cond_Status ready))"
proof -
  let ?carry = "\<lambda>xs. fold (\<lambda>node s. initLocating_conditions (Conditions node) s) xs ''''"
  have keep: "initLocating_conditions (Conditions node) s = s" for s
    using assms(1) by (rule initLocating_conditions_no_Ready)
  have here: "EdgeNodes (initLocating_nodes (node # rest) s c') (Name node) = Some s" for s c'
    using assms(2) by (simp add: Let_def keep initLocating_nodes_other UpdateEdgeNode_def)
  have first: "EdgeNodes (snd (initLocating (Inr (node # rest)) pods ecs c)) (Name node)
                 = Some ''''"
    unfolding initLocating_EdgeNodes by (rule here)
  have split: "before @ prev # node # rest = (before @ [prev]) @ (node # rest)"
    by simp
  have later: "EdgeNodes (snd (initLocating (Inr (before @ prev # node # rest)) pods ecs c))
                 (Name node) = Some (?carry (before @ [prev]))"
    unfolding initLocating_EdgeNodes split initLocating_nodes_append by (rule here)
  have prev: "EdgeNodes (initLocating_nodes (before @ [prev]) '''' c) (Name prev)
                = Some (?carry (before @ [prev]))"
    by (rule initLocating_nodes_last)
  have ready: "?carry (before @ [prev]) = cond_Status r"
    if "find (\<lambda>nsc. cond_Type nsc = ''Ready'') (Conditions prev) = Some r" for r
    using initLocating_conditions_find [OF that] by simp
  show ?thesis
    using first later prev ready by simp
qed

theorem initLocating_status_carried_to_node_without_Ready_witness:
  "EdgeNodes
     (snd (initLocating
             (Inr [\<lparr>Name = ''n1'', Namespace = '''', ResourceVersion = ''11'',
                     Conditions = [\<lparr>cond_Type = ''Ready'', cond_Status = ''True''\<rparr>]\<rparr>,
                   \<lparr>Name = ''n5'', Namespace = '''', ResourceVersion = ''15'',
                     Conditions = [\<lparr>cond_Type = ''MemoryPressure'', cond_Status = ''False''\<rparr>]\<rparr>])
             (Inr []) (Inr []) empty_LocationCache))
     ''n5'' = Some ''True''
   \<and> EdgeNodes
       (snd (initLocating
               (Inr [\<lparr>Name = ''n5'', Namespace = '''', ResourceVersion = ''15'',
                       Conditions = [\<lparr>cond_Type = ''MemoryPressure'', cond_Status = ''False''\<rparr>]\<rparr>])
               (Inr []) (Inr []) empty_LocationCache))
       ''n5'' = Some ''''"
proof -
  let ?n1 = "\<lparr>Name = ''n1'', Namespace = '''', ResourceVersion = ''11'',
              Conditions = [\<lparr>cond_Type = ''Ready'', cond_Status = ''True''\<rparr>]\<rparr>"
  let ?n5 = "\<lparr>Name = ''n5'', Namespace = '''', ResourceVersion = ''15'',
              Conditions = [\<lparr>cond_Type = ''MemoryPressure'', cond_Status = ''False''\<rparr>]\<rparr>"
  let ?r = "\<lparr>cond_Type = ''Ready'', cond_Status = ''True''\<rparr>"
  have h1: "\<forall>nsc \<in> set (Conditions ?n5). cond_Type nsc \<noteq> ''Ready''" by simp
  have h2: "Name ?n5 \<notin> Name ` set ([] :: Node list)" by simp
  have f: "find (\<lambda>nsc. cond_Type nsc = ''Ready'') (Conditions ?n1) = Some ?r" by simp
  note w = initLocating_status_carried_to_node_without_Ready
    [OF h1 h2, of "Inr []" "Inr []" empty_LocationCache "[]" ?n1]
  have a: "EdgeNodes (snd (initLocating (Inr [?n1, ?n5]) (Inr []) (Inr [])
             empty_LocationCache)) ''n5'' = Some ''True''"
    using w [THEN conjunct2, THEN conjunct2, THEN spec, THEN mp, OF f] by simp
  have b: "EdgeNodes (snd (initLocating (Inr [?n5]) (Inr []) (Inr [])
             empty_LocationCache)) ''n5'' = Some ''''"
    using w [THEN conjunct1] by simp
  show ?thesis
    by (rule conjI) (rule a, rule b)
qed

end
